theory Spec2Isabelle
  imports Main "HOL-Library.Multiset" "HOL-Library.AList"
begin

section \<open>JavaScript values\<close>

text \<open>
  The renderer is TypeScript, but the data it reads back from local storage and from the
  bridge (\<open>JSON.parse\<close>, \<open>loadConversation\<close>) is unchecked at run time, and it is copied
  into the fields of a tab as it is. The fields that are filled from such data therefore
  hold a JavaScript value.

  A number of the model is an integer that a double holds exactly and that \<open>String\<close> prints
  as its decimal numeral: an integer of absolute value up to \<open>2^53 - 1\<close>. Fractions, larger
  numbers, \<open>NaN\<close> and the infinities are outside the model.
\<close>

typedef jsnumber = "{n :: int. \<bar>n\<bar> \<le> 9007199254740991}"
  morphisms number_value Number
  by (rule exI [of _ 0]) simp

text \<open>
  An array and an object carry the identity of the object: \<open>===\<close> compares two of them
  by identity, not by content. The properties of an object are an association list; the
  first entry of a key is the object's property.
\<close>

type_synonym identity = "nat list"

datatype jsval =
    JUndefined
  | JNull
  | JBool bool
  | JNum jsnumber
  | JStr string
  | JArr identity "jsval list"
  | JObj identity "(string \<times> jsval) list"

text \<open>JavaScript's \<open>!!v\<close>.\<close>

fun truthy :: "jsval \<Rightarrow> bool" where
  "truthy JUndefined = False"
| "truthy JNull = False"
| "truthy (JBool b) = b"
| "truthy (JNum n) = (number_value n \<noteq> 0)"
| "truthy (JStr s) = (s \<noteq> [])"
| "truthy (JArr a xs) = True"
| "truthy (JObj a kvs) = True"

text \<open>
  \<open>a === b\<close>: primitive values are compared by value, arrays and objects by identity.
\<close>

fun strict_eq :: "jsval \<Rightarrow> jsval \<Rightarrow> bool" where
  "strict_eq JUndefined JUndefined = True"
| "strict_eq JNull JNull = True"
| "strict_eq (JBool a) (JBool b) = (a = b)"
| "strict_eq (JNum a) (JNum b) = (a = b)"
| "strict_eq (JStr a) (JStr b) = (a = b)"
| "strict_eq (JArr a xs) (JArr b ys) = (a = b)"
| "strict_eq (JObj a kvs) (JObj b kvs') = (a = b)"
| "strict_eq a b = False"

fun is_string :: "jsval \<Rightarrow> bool" where
  "is_string (JStr t) = True"
| "is_string v = False"

fun is_string_or_null :: "jsval \<Rightarrow> bool" where
  "is_string_or_null (JStr t) = True"
| "is_string_or_null JNull = True"
| "is_string_or_null v = False"

datatype exn = TypeError | SyntaxError | BridgeRejected

text \<open>
  Property access \<open>v.k\<close>: a \<open>TypeError\<close> on \<open>null\<close> and \<open>undefined\<close>, the property (or
  \<open>undefined\<close>) on an object, and \<open>undefined\<close> on every other value for the property names
  the program reads (none of them is a built-in property of a string, number, boolean or
  array).
\<close>

fun get_prop :: "jsval \<Rightarrow> string \<Rightarrow> exn + jsval" where
  "get_prop JUndefined k = Inl TypeError"
| "get_prop JNull k = Inl TypeError"
| "get_prop (JObj a kvs) k = (case map_of kvs k of None \<Rightarrow> Inr JUndefined | Some v \<Rightarrow> Inr v)"
| "get_prop v k = Inr JUndefined"

fun digit_char :: "nat \<Rightarrow> char" where
  "digit_char n = ''0123456789'' ! (n mod 10)"

fun show_nat :: "nat \<Rightarrow> string" where
  "show_nat n = (if n < 10 then [digit_char n] else show_nat (n div 10) @ [digit_char n])"

definition show_int :: "int \<Rightarrow> string" where
  "show_int i = (if i < 0 then CHR ''-'' # show_nat (nat (- i)) else show_nat (nat i))"

fun join :: "string \<Rightarrow> string list \<Rightarrow> string" where
  "join sep [] = []"
| "join sep [x] = x"
| "join sep (x # y # ys) = x @ sep @ join sep (y # ys)"

text \<open>The results of a list of steps, up to the first exception.\<close>

fun all_results :: "(exn + 'a) list \<Rightarrow> exn + 'a list" where
  "all_results [] = Inr []"
| "all_results (Inl e # rs) = Inl e"
| "all_results (Inr x # rs) = (case all_results rs of Inl e \<Rightarrow> Inl e | Inr xs \<Rightarrow> Inr (x # xs))"

text \<open>
  \<open>String(v)\<close>, as in a template literal, \<open>Array.prototype.join\<close>, the argument of
  \<open>setItem\<close> and the argument of \<open>new Date\<close>. An object of the data has no function among
  its properties, so one with a property \<open>toString\<close> of its own cannot be turned into a
  string: a \<open>TypeError\<close>. An array is the join of its elements, \<open>null\<close> and \<open>undefined\<close>
  giving the empty string.
\<close>

fun to_js_string :: "jsval \<Rightarrow> exn + string" where
  "to_js_string JUndefined = Inr ''undefined''"
| "to_js_string JNull = Inr ''null''"
| "to_js_string (JBool b) = Inr (if b then ''true'' else ''false'')"
| "to_js_string (JNum n) = Inr (show_int (number_value n))"
| "to_js_string (JStr s) = Inr s"
| "to_js_string (JArr a xs) =
     (case all_results
             (map (\<lambda>x. if x = JUndefined \<or> x = JNull then Inr [] else to_js_string x) xs) of
        Inl e \<Rightarrow> Inl e
      | Inr parts \<Rightarrow> Inr (join '','' parts))"
| "to_js_string (JObj a kvs) =
     (if map_of kvs ''toString'' \<noteq> None then Inl TypeError else Inr ''[object Object]'')"

text \<open>A value that a template literal can print.\<close>

definition printable :: "jsval \<Rightarrow> bool" where
  "printable v = (case to_js_string v of Inr t \<Rightarrow> True | Inl e \<Rightarrow> False)"

text \<open>
  What \<open>JSON.stringify\<close> writes of a value: a property whose value is \<open>undefined\<close> is left
  out, and an \<open>undefined\<close> array element is written as \<open>null\<close>.
\<close>

fun json_norm :: "jsval \<Rightarrow> jsval" where
  "json_norm (JArr a xs) = JArr a (map (\<lambda>x. if x = JUndefined then JNull else json_norm x) xs)"
| "json_norm (JObj a kvs) =
     JObj a (filter (\<lambda>(k, v). v \<noteq> JUndefined)
               (AList.clearjunk (map (\<lambda>(k, v). (k, json_norm v)) kvs)))"
| "json_norm v = v"

text \<open>
  The arrays and objects that \<open>JSON.parse\<close> builds are new, each with an identity of its
  own: the model gives each the path that leads to it in the parsed value. The program
  parses one text only, on a new page.
\<close>

fun fresh :: "identity \<Rightarrow> jsval \<Rightarrow> jsval"
  and fresh_list :: "identity \<Rightarrow> nat \<Rightarrow> jsval list \<Rightarrow> jsval list"
  and fresh_props :: "identity \<Rightarrow> nat \<Rightarrow> (string \<times> jsval) list \<Rightarrow> (string \<times> jsval) list" where
  "fresh p (JArr a xs) = JArr p (fresh_list p 0 xs)"
| "fresh p (JObj a kvs) = JObj p (fresh_props p 0 kvs)"
| "fresh p JUndefined = JUndefined"
| "fresh p JNull = JNull"
| "fresh p (JBool b) = JBool b"
| "fresh p (JNum n) = JNum n"
| "fresh p (JStr t) = JStr t"
| "fresh_list p i [] = []"
| "fresh_list p i (x # xs) = fresh (p @ [i]) x # fresh_list p (Suc i) xs"
| "fresh_props p i [] = []"
| "fresh_props p i ((k, v) # kvs) = (k, fresh (p @ [i]) v) # fresh_props p (Suc i) kvs"

text \<open>
  The text kept under a key of \<open>localStorage\<close>. The JSON text format itself is not
  modelled: a text is the empty string, a text that \<open>JSON.parse\<close> rejects, or a text that
  \<open>JSON.parse\<close> reads as a value. A text has no identities in it: those written in its
  value mean nothing.
\<close>

datatype json_text = EmptyText | Unparseable | Json jsval

definition JSON_stringify :: "jsval \<Rightarrow> json_text" where
  "JSON_stringify v = Json (json_norm v)"

fun JSON_parse :: "json_text \<Rightarrow> exn + jsval" where
  "JSON_parse (Json v) = Inr (fresh [] v)"
| "JSON_parse t = Inl SyntaxError"
section \<open>Strings\<close>

text \<open>
  \<open>String.prototype.trim\<close> on the characters of the model (code units up to 255): tab, line
  feed, vertical tab, form feed, carriage return, space and no-break space.
\<close>

definition is_ws :: "char \<Rightarrow> bool" where
  "is_ws c = (c \<in> set [CHR 0x09, CHR 0x0A, CHR 0x0B, CHR 0x0C, CHR 0x0D, CHR 0x20, CHR 0xA0])"

definition trim :: "string \<Rightarrow> string" where
  "trim s = rev (dropWhile is_ws (rev (dropWhile is_ws s)))"

fun replace_char :: "char \<Rightarrow> string \<Rightarrow> string \<Rightarrow> string" where
  "replace_char c r [] = []"
| "replace_char c r (x # xs) = (if x = c then r @ replace_char c r xs else x # replace_char c r xs)"

definition escapeHtml :: "string \<Rightarrow> string" where
  "escapeHtml text =
     replace_char CHR 0x22 ''&quot;''
       (replace_char CHR ''>'' ''&gt;''
         (replace_char CHR ''<'' ''&lt;''
           (replace_char CHR ''&'' ''&amp;'' text)))"

text \<open>
  \<open>parseMarkdown(t)\<close> without citations: the empty string for an empty text, and the
  result of the markdown library (\<open>marked.parse\<close>, a parameter) otherwise.
\<close>

definition parseMarkdown :: "(string \<Rightarrow> string) \<Rightarrow> string \<Rightarrow> string" where
  "parseMarkdown marked t = (if t = [] then [] else marked t)"

section \<open>Data model\<close>

text \<open>
  \<open>AttachmentPayload\<close> and \<open>UploadedAttachment\<close> (the payload with the local \<open>id\<close>, here
  \<open>att_id\<close>, given at upload).
\<close>

record AttachmentPayload =
  document_id :: string
  file_name :: string
  file_size :: int
  file_type :: string
  file_url :: "string option"
  extracted_content :: "string option"

record UploadedAttachment = AttachmentPayload +
  att_id :: string

text \<open>
  A message element of the page: the \<open>div\<close> of class \<open>message user\<close> or
  \<open>message assistant\<close> with its one child, the \<open>message-content\<close> \<open>div\<close>. The element and
  its content \<open>div\<close> live in the store of the page under one address; a tab refers to them
  by that address, so that a write through \<open>streamingElement\<close> is seen through \<open>messages\<close>.
\<close>

datatype role = User | Assistant

record message_el =
  el_role :: role
  innerHTML :: string

text \<open>
  What has been written to the terminal widget of a tab after its banner and first prompt,
  oldest first.
\<close>

datatype term_out = Write string | Writeln string

text \<open>
  \<open>ChatTab\<close>. The field \<open>id\<close> is \<open>tab_id\<close> here. The fields that \<open>restoreTabs\<close> and
  \<open>loadConversationHistory\<close> fill from unchecked data are JavaScript values.
\<close>

record ChatTab =
  tab_id :: jsval
  name :: jsval
  accountId :: jsval
  conversationId :: jsval
  parentMessageUuid :: jsval
  model :: jsval
  messages :: "nat list"
  isLoading :: bool
  streamingElement :: "nat option"
  pendingAttachments :: "UploadedAttachment list"
  tabType :: jsval
  terminal :: "term_out list option"

text \<open>
  The state of the module (\<open>tabs\<close>, \<open>activeTabId\<close>, \<open>selectedAccountForNewTab\<close>,
  \<open>selectedTabType\<close>), the two keys of \<open>localStorage\<close>, and the part of the page that the
  tab logic reads or writes: the store of message elements with the next free address, the
  value of the input box and whether the account-selection dialog is shown. The static
  elements of the page (\<open>input\<close>, \<open>messages\<close>, \<open>terminal-container\<close>, ...) exist, and
  \<open>localStorage\<close> has room; what is drawn (tab strip, badges, buttons, scrolling, the
  console) is left out, but not the exceptions that drawing it can throw.
  \<open>selectedTabType\<close> is read from the \<open>data-type\<close> attribute of a button: a string, or
  \<open>undefined\<close> (\<open>None\<close>).
\<close>

record state =
  tabs :: "ChatTab list"
  activeTabId :: jsval
  selectedAccountForNewTab :: "string option"
  selectedTabType :: "string option"
  storage_tabs :: "json_text option"
  storage_active :: "string option"
  elements :: "nat \<rightharpoonup> message_el"
  next_el :: nat
  input_value :: string
  accountModalVisible :: bool

definition MAX_TABS :: nat where
  "MAX_TABS = 3"

text \<open>
  How a function of the module ends: it returns, or it throws; either way it leaves the
  state that it has reached.
\<close>

datatype outcome = Returned state | Threw exn state

fun state_of :: "outcome \<Rightarrow> state" where
  "state_of (Returned s) = s"
| "state_of (Threw e s) = s"

text \<open>Statements run one after the other, up to the first that throws.\<close>

fun run_steps :: "(state \<Rightarrow> outcome) list \<Rightarrow> state \<Rightarrow> outcome" where
  "run_steps [] s = Returned s"
| "run_steps (f # fs) s = (case f s of Returned s1 \<Rightarrow> run_steps fs s1 | Threw e s1 \<Rightarrow> Threw e s1)"

definition returns :: "(state \<Rightarrow> state) \<Rightarrow> state \<Rightarrow> outcome" where
  "returns f s = Returned (f s)"

section \<open>Tab management\<close>

fun find_index :: "('a \<Rightarrow> bool) \<Rightarrow> 'a list \<Rightarrow> nat option" where
  "find_index P [] = None"
| "find_index P (x # xs) =
     (if P x then Some 0 else (case find_index P xs of None \<Rightarrow> None | Some i \<Rightarrow> Some (Suc i)))"

definition canCreateNewTab :: "state \<Rightarrow> bool" where
  "canCreateNewTab s = (length (tabs s) < MAX_TABS)"

text \<open>
  \<open>getActiveTab\<close> returns the tab object; in the model, its position in \<open>tabs\<close>.
\<close>

definition getActiveTab :: "state \<Rightarrow> nat option" where
  "getActiveTab s = find_index (\<lambda>t. strict_eq (tab_id t) (activeTabId s)) (tabs s)"

definition update_tab :: "nat \<Rightarrow> (ChatTab \<Rightarrow> ChatTab) \<Rightarrow> state \<Rightarrow> state" where
  "update_tab i f s = s\<lparr>tabs := (tabs s)[i := f (tabs s ! i)]\<rparr>"

text \<open>A new terminal widget, showing the banner and the prompt.\<close>

definition initializeTerminal :: "nat \<Rightarrow> state \<Rightarrow> state" where
  "initializeTerminal i s = update_tab i (\<lambda>t. t\<lparr>terminal := Some []\<rparr>) s"

text \<open>
  \<open>renderTabs()\<close> draws the tab strip and changes nothing of the state, but it throws a
  \<open>TypeError\<close> on a tab that it cannot draw: \<open>getAccountColor(tab.accountId)\<close> calls
  \<open>accountId.split\<close>, which only a string has; the \<open>id\<close> is printed by a template
  literal; and \<open>escapeHtml(tab.name)\<close> calls \<open>(text || "").replace\<close>, which needs a
  \<open>name\<close> that is falsy or a string.
\<close>

definition tab_renders :: "ChatTab \<Rightarrow> bool" where
  "tab_renders t =
     (is_string (accountId t) \<and> printable (tab_id t) \<and>
      (if truthy (name t) then is_string (name t) else True))"

definition renderTabs :: "state \<Rightarrow> outcome" where
  "renderTabs s = (if list_all tab_renders (tabs s) then Returned s else Threw TypeError s)"

text \<open>
  \<open>renderActiveTab\<close>: it draws, and the active tab of type \<open>cli\<close> gets its terminal when
  it has none.
\<close>

definition renderActiveTab :: "state \<Rightarrow> state" where
  "renderActiveTab s =
     (case getActiveTab s of
        None \<Rightarrow> s
      | Some i \<Rightarrow>
          if strict_eq (tabType (tabs s ! i)) (JStr ''cli'') \<and> terminal (tabs s ! i) = None
          then initializeTerminal i s else s)"

text \<open>
  \<open>updateInputBadge\<close>, \<open>updateModelSelector\<close> and \<open>updateModeToggle\<close> change nothing of the
  state. With an active tab, the first assigns its \<open>name\<close> to \<open>textContent\<close> (\<open>null\<close> and
  \<open>undefined\<close> are taken as they are), the second assigns its \<open>model\<close> to the \<open>value\<close> of
  the selector, and the third prints its \<open>tabType\<close> in a template literal: each throws on a
  value that cannot be turned into a string.
\<close>

definition updateInputBadge :: "state \<Rightarrow> outcome" where
  "updateInputBadge s =
     (case getActiveTab s of
        None \<Rightarrow> Returned s
      | Some i \<Rightarrow> if printable (name (tabs s ! i)) then Returned s else Threw TypeError s)"

definition updateModelSelector :: "state \<Rightarrow> outcome" where
  "updateModelSelector s =
     (case getActiveTab s of
        None \<Rightarrow> Returned s
      | Some i \<Rightarrow> if printable (model (tabs s ! i)) then Returned s else Threw TypeError s)"

definition updateModeToggle :: "state \<Rightarrow> outcome" where
  "updateModeToggle s =
     (case getActiveTab s of
        None \<Rightarrow> Returned s
      | Some i \<Rightarrow> if printable (tabType (tabs s ! i)) then Returned s else Threw TypeError s)"

text \<open>
  The object of a tab that \<open>saveTabs\<close> turns into text. Its identity is never observed: it
  is written \<open>[]\<close>.
\<close>

definition tab_snapshot :: "ChatTab \<Rightarrow> jsval" where
  "tab_snapshot tab =
     JObj [] [(''id'', tab_id tab), (''name'', name tab), (''accountId'', accountId tab),
             (''conversationId'', conversationId tab),
             (''parentMessageUuid'', parentMessageUuid tab), (''model'', model tab),
             (''tabType'', tabType tab)]"

text \<open>
  \<open>saveTabs\<close>: the state when it has ended. The second \<open>setItem\<close> turns
  \<open>activeTabId || ""\<close> into a string; when that throws, only the first key has been
  written. \<open>saveTabs_step\<close> says, in addition, which of the two ends it was.
\<close>

definition saveTabs :: "state \<Rightarrow> state" where
  "saveTabs s =
     (let s1 = s\<lparr>storage_tabs := Some (JSON_stringify (JArr [] (map tab_snapshot (tabs s))))\<rparr>
      in if truthy (activeTabId s)
         then (case to_js_string (activeTabId s) of
                 Inr t \<Rightarrow> s1\<lparr>storage_active := Some t\<rparr>
               | Inl e \<Rightarrow> s1)
         else s1\<lparr>storage_active := Some []\<rparr>)"

definition saveTabs_step :: "state \<Rightarrow> outcome" where
  "saveTabs_step s =
     (if truthy (activeTabId s) \<and> \<not> printable (activeTabId s) then Threw TypeError (saveTabs s)
      else Returned (saveTabs s))"

text \<open>
  \<open>createTab(accountId, name?, tabType = "gui")\<close>; \<open>uuid\<close> is the result of
  \<open>crypto.randomUUID()\<close>. There is no check of the number of tabs here.
\<close>

definition createTab :: "string \<Rightarrow> string \<Rightarrow> string option \<Rightarrow> string option \<Rightarrow> state \<Rightarrow> outcome" where
  "createTab uuid account nameOpt tabTypeArg s =
     (let ty = (case tabTypeArg of None \<Rightarrow> ''gui'' | Some t \<Rightarrow> t);
          tabName =
            (case nameOpt of
               Some n \<Rightarrow>
                 if n \<noteq> [] then n
                 else if ty = ''cli'' then ''CLI '' @ show_nat (length (tabs s) + 1)
                 else ''Chat '' @ show_nat (length (tabs s) + 1)
             | None \<Rightarrow>
                 if ty = ''cli'' then ''CLI '' @ show_nat (length (tabs s) + 1)
                 else ''Chat '' @ show_nat (length (tabs s) + 1));
          tab = \<lparr>tab_id = JStr uuid, name = JStr tabName, accountId = JStr account,
                 conversationId = JNull, parentMessageUuid = JNull,
                 model = JStr ''claude-opus-4-5-20251101'', messages = [], isLoading = False,
                 streamingElement = None, pendingAttachments = [], tabType = JStr ty,
                 terminal = None\<rparr>;
          s1 = s\<lparr>tabs := tabs s @ [tab], activeTabId := JStr uuid\<rparr>;
          s2 = (if ty = ''cli'' then initializeTerminal (length (tabs s)) s1 else s1)
      in run_steps [renderTabs, returns renderActiveTab, saveTabs_step, updateInputBadge,
                    updateModelSelector, updateModeToggle] s2)"

text \<open>
  \<open>switchTab\<close> and \<open>closeTab\<close> are called by click handlers only, and nothing catches what
  they throw: the model gives the state when the handler has ended, by a return or by an
  exception. In \<open>switchTab\<close> the first log line prints the \<open>name\<close> and the \<open>tabType\<close> of the
  tab in a template literal, before anything is changed.
\<close>

definition switchTab :: "string \<Rightarrow> state \<Rightarrow> state" where
  "switchTab tabId s =
     (if strict_eq (activeTabId s) (JStr tabId) then s
      else (case find_index (\<lambda>t. strict_eq (tab_id t) (JStr tabId)) (tabs s) of
              None \<Rightarrow> s
            | Some i \<Rightarrow>
                if \<not> (printable (name (tabs s ! i)) \<and> printable (tabType (tabs s ! i))) then s
                else state_of
                       (run_steps [renderTabs, returns renderActiveTab, updateInputBadge,
                                   updateModelSelector, updateModeToggle, saveTabs_step]
                          (s\<lparr>activeTabId := JStr tabId\<rparr>))))"

text \<open>\<open>tabs.splice(tabIndex, 1)\<close>.\<close>

definition splice1 :: "nat \<Rightarrow> 'a list \<Rightarrow> 'a list" where
  "splice1 i xs = take i xs @ drop (Suc i) xs"

text \<open>
  \<open>closeTab\<close>. After the splice the list is not empty (it had at least two tabs: with none
  the id is not found) and \<open>Math.max(0, tabIndex - 1)\<close>, the truncating \<open>tabIndex - 1\<close> on
  naturals, is a position of it.
\<close>

definition closeTab :: "string \<Rightarrow> state \<Rightarrow> state" where
  "closeTab tabId s =
     (if length (tabs s) = 1 then s
      else (case find_index (\<lambda>t. strict_eq (tab_id t) (JStr tabId)) (tabs s) of
              None \<Rightarrow> s
            | Some tabIndex \<Rightarrow>
                let s1 = s\<lparr>tabs := splice1 tabIndex (tabs s)\<rparr>;
                    s2 = (if strict_eq (activeTabId s1) (JStr tabId)
                          then s1\<lparr>activeTabId := tab_id (tabs s1 ! (tabIndex - 1))\<rparr>
                          else s1)
                in state_of
                     (run_steps [renderTabs, returns renderActiveTab, updateInputBadge,
                                 updateModelSelector, saveTabs_step] s2)))"

text \<open>\<open>updateTabName\<close>: the name is set before anything can throw.\<close>

definition updateTabName :: "jsval \<Rightarrow> jsval \<Rightarrow> state \<Rightarrow> outcome" where
  "updateTabName tabId newName s =
     (case find_index (\<lambda>t. strict_eq (tab_id t) tabId) (tabs s) of
        None \<Rightarrow> Returned s
      | Some i \<Rightarrow>
          run_steps [renderTabs,
                     (\<lambda>s1. if strict_eq (activeTabId s1) tabId then updateInputBadge s1
                           else Returned s1),
                     saveTabs_step]
            (update_tab i (\<lambda>t. t\<lparr>name := newName\<rparr>) s))"

section \<open>Messages\<close>

text \<open>
  \<open>addMessage(role, content, raw)\<close>: a new message element, appended to the messages of the
  active tab when there is one. The result is the new state and the address of the element.
\<close>

definition addMessage :: "(string \<Rightarrow> string) \<Rightarrow> role \<Rightarrow> string \<Rightarrow> bool \<Rightarrow> state \<Rightarrow> state \<times> nat" where
  "addMessage marked r content raw s =
     (let el = \<lparr>el_role = r,
                innerHTML = (if r = User then escapeHtml content
                             else if raw then content
                             else parseMarkdown marked content)\<rparr>;
          a = next_el s;
          s1 = s\<lparr>elements := (elements s)(a \<mapsto> el), next_el := Suc a\<rparr>;
          s2 = (case getActiveTab s1 of
                  None \<Rightarrow> s1
                | Some i \<Rightarrow> update_tab i (\<lambda>t. t\<lparr>messages := messages t @ [a]\<rparr>) s1)
      in (s2, a))"

text \<open>\<open>element.innerHTML = html\<close> for the content of the message element at an address.\<close>

definition set_innerHTML :: "nat \<Rightarrow> string \<Rightarrow> state \<Rightarrow> state" where
  "set_innerHTML a html s =
     s\<lparr>elements := (elements s)(a := map_option (\<lambda>el. el\<lparr>innerHTML := html\<rparr>) (elements s a))\<rparr>"

section \<open>Messaging\<close>

text \<open>
  The two calls of the bridge in \<open>sendMessage\<close> and how they end: \<open>createConversation\<close>
  rejects or gives a conversation id and a parent message id; \<open>sendMessage\<close> resolves or
  rejects with an error, of which \<open>String(e)\<close> is kept.
\<close>

datatype create_result = CreateRejected | Created string string

datatype send_result = SendResolved | SendRejected string

text \<open>The arguments of the call \<open>window.claude.sendMessage\<close>.\<close>

record send_request =
  req_conversationId :: jsval
  req_message :: string
  req_parentUuid :: jsval
  req_attachments :: "AttachmentPayload list"

definition attachment_payload :: "UploadedAttachment \<Rightarrow> AttachmentPayload" where
  "attachment_payload a =
     \<lparr>document_id = document_id a, file_name = file_name a, file_size = file_size a,
      file_type = file_type a, file_url = file_url a,
      extracted_content = extracted_content a\<rparr>"

definition error_marker :: "string \<Rightarrow> string" where
  "error_marker e =
     ''<span style='' @ [CHR 0x22] @ ''color: #ff453a;'' @ [CHR 0x22] @ ''>Error: ''
       @ escapeHtml e @ ''</span>''"

text \<open>
  \<open>sendMessage\<close> from the point where it goes on after \<open>createConversation\<close>, on the state
  that it finds then: \<open>i\<close> is the position in \<open>tabs\<close> of the tab of the send (the function
  holds the tab object; a tab that was closed in between is outside the model), \<open>message\<close>
  the trimmed text read at the start, and \<open>created\<close> how \<open>createConversation\<close> ended, or
  \<open>None\<close> when the tab had a conversation and nothing was awaited. From here to the call of
  the bridge's \<open>sendMessage\<close> nothing is awaited. The result is the new state and the
  request passed to the bridge, if the send got that far.
\<close>

definition sendMessage_resume ::
  "(string \<Rightarrow> string) \<Rightarrow> create_result option \<Rightarrow> send_result \<Rightarrow> nat \<Rightarrow> string \<Rightarrow> state
     \<Rightarrow> state \<times> send_request option" where
  "sendMessage_resume marked created sr i message s =
     (case (case created of
              None \<Rightarrow> Some s
            | Some CreateRejected \<Rightarrow> None
            | Some (Created c p) \<Rightarrow>
                Some (update_tab i
                        (\<lambda>t. t\<lparr>conversationId := JStr c, parentMessageUuid := JStr p\<rparr>) s)) of
        None \<Rightarrow> (s, None)
      | Some s1 \<Rightarrow>
          let s2 = fst (addMessage marked User message False s1);
              s3 = s2\<lparr>input_value := []\<rparr>;
              attachments = map attachment_payload (pendingAttachments (tabs s3 ! i));
              s4 = update_tab i (\<lambda>t. t\<lparr>pendingAttachments := []\<rparr>) s3;
              (s5, assistantMsg) = addMessage marked Assistant [] True s4;
              s6 = update_tab i
                     (\<lambda>t. t\<lparr>streamingElement := Some assistantMsg, isLoading := True\<rparr>) s5;
              tab = tabs s6 ! i;
              req = \<lparr>req_conversationId = conversationId tab,
                     req_message = message,
                     req_parentUuid =
                       (if truthy (parentMessageUuid tab) then parentMessageUuid tab
                        else conversationId tab),
                     req_attachments = attachments\<rparr>
          in (case sr of
                SendResolved \<Rightarrow> (s6, Some req)
              | SendRejected e \<Rightarrow>
                  let s7 = (case streamingElement (tabs s6 ! i) of
                              None \<Rightarrow> s6
                            | Some a \<Rightarrow> set_innerHTML a (error_marker e) s6);
                      s8 = update_tab i (\<lambda>t. t\<lparr>isLoading := False\<rparr>) s7
                  in (s8, Some req)))"

text \<open>
  \<open>sendMessage\<close>, run from the click to the end of the bridge's \<open>sendMessage\<close> call with no
  other handler in between.
\<close>

definition sendMessage ::
  "(string \<Rightarrow> string) \<Rightarrow> create_result \<Rightarrow> send_result \<Rightarrow> state \<Rightarrow> state \<times> send_request option" where
  "sendMessage marked cr sr s =
     (case getActiveTab s of
        None \<Rightarrow> (s, None)
      | Some i \<Rightarrow>
          let message = trim (input_value s) in
          if message = [] then (s, None)
          else sendMessage_resume marked
                 (if \<not> truthy (conversationId (tabs s ! i)) then Some cr else None) sr i message s)"

section \<open>Events of the bridge\<close>

record StreamData =
  sd_conversationId :: string
  sd_fullText :: string

record CompleteData =
  cd_conversationId :: string
  cd_fullText :: string
  cd_messageUuid :: string

definition terminal_write :: "term_out list \<Rightarrow> ChatTab \<Rightarrow> ChatTab" where
  "terminal_write out t =
     (case terminal t of None \<Rightarrow> t | Some old \<Rightarrow> t\<lparr>terminal := Some (old @ out)\<rparr>)"

definition claude_prefix :: string where
  "claude_prefix =
     [CHR 0x0D, CHR 0x1B] @ ''[K'' @ [CHR 0x1B] @ ''[32mClaude:'' @ [CHR 0x1B] @ ''[0m ''"

text \<open>The prompt of the terminal; its arrow glyph is written \<open>>\<close> here.\<close>

definition prompt :: string where
  "prompt = [CHR 0x1B] @ ''[36m>'' @ [CHR 0x1B] @ ''[0m ''"

text \<open>The callback registered with \<open>onMessageStream\<close>.\<close>

definition onMessageStream :: "(string \<Rightarrow> string) \<Rightarrow> StreamData \<Rightarrow> state \<Rightarrow> state" where
  "onMessageStream marked data s =
     (case find_index (\<lambda>t. strict_eq (conversationId t) (JStr (sd_conversationId data))) (tabs s) of
        None \<Rightarrow> s
      | Some i \<Rightarrow>
          (case streamingElement (tabs s ! i) of
             None \<Rightarrow> s
           | Some a \<Rightarrow>
               let s1 = set_innerHTML a (parseMarkdown marked (sd_fullText data)) s
               in if strict_eq (tab_id (tabs s1 ! i)) (activeTabId s1)
                     \<and> terminal (tabs s1 ! i) \<noteq> None
                  then update_tab i
                         (terminal_write
                            [Write (claude_prefix @ take 100 (sd_fullText data) @ ''...'')]) s1
                  else s1))"

text \<open>
  The callback registered with \<open>onMessageComplete\<close>: the state when it has ended (its last
  statement is \<open>saveTabs()\<close>).
\<close>

definition onMessageComplete :: "CompleteData \<Rightarrow> state \<Rightarrow> state" where
  "onMessageComplete data s =
     (case find_index (\<lambda>t. strict_eq (conversationId t) (JStr (cd_conversationId data))) (tabs s) of
        None \<Rightarrow> s
      | Some i \<Rightarrow>
          let s1 = update_tab i
                     (\<lambda>t. t\<lparr>parentMessageUuid := JStr (cd_messageUuid data),
                            isLoading := False, streamingElement := None\<rparr>) s;
              s2 = update_tab i
                     (terminal_write
                        [Writeln (claude_prefix @ cd_fullText data), Writeln [], Write prompt]) s1
          in saveTabs s2)"

section \<open>A message typed in the terminal\<close>

definition you_prefix :: string where
  "you_prefix = [CHR 0x1B] @ ''[33mYou:'' @ [CHR 0x1B] @ ''[0m ''"

text \<open>
  \<open>handleCLIMessage(tab, message)\<close>, which the terminal of a \<open>cli\<close> tab calls with the
  trimmed line when Enter is pressed on a line that is not blank; \<open>j\<close> is the position of
  the tab whose terminal it is. It is run to its end with no other handler in between. It
  echoes the line, adds the user message to the page, and then sends through \<open>sendMessage\<close>
  by way of the input box.
\<close>

definition handleCLIMessage ::
  "(string \<Rightarrow> string) \<Rightarrow> create_result \<Rightarrow> send_result \<Rightarrow> nat \<Rightarrow> string \<Rightarrow> state
     \<Rightarrow> state \<times> send_request option" where
  "handleCLIMessage marked cr sr j message s =
     (case terminal (tabs s ! j) of
        None \<Rightarrow> (s, None)
      | Some out \<Rightarrow>
          let s1 = update_tab j (terminal_write [Writeln (you_prefix @ message)]) s;
              s2 = fst (addMessage marked User message False s1);
              s3 = s2\<lparr>input_value := message\<rparr>;
              (s4, req) = sendMessage marked cr sr s3
          in (s4\<lparr>input_value := []\<rparr>, req))"

section \<open>The new-tab dialog\<close>

definition showAccountSelectModal :: "state \<Rightarrow> state" where
  "showAccountSelectModal s = s\<lparr>selectedAccountForNewTab := None, accountModalVisible := True\<rparr>"

definition hideAccountSelectModal :: "state \<Rightarrow> state" where
  "hideAccountSelectModal s = s\<lparr>accountModalVisible := False, selectedAccountForNewTab := None\<rparr>"

text \<open>The click handler of \<open>new-tab-btn\<close>: the one place that asks \<open>canCreateNewTab\<close>.\<close>

definition newTabBtn_click :: "state \<Rightarrow> state" where
  "newTabBtn_click s =
     (if canCreateNewTab s then showAccountSelectModal (s\<lparr>selectedTabType := Some ''gui''\<rparr>)
      else s)"

text \<open>
  The click handler of an account of the list that \<open>renderAccountList\<close> draws. It does not
  ask whether the dialog is shown.
\<close>

definition account_option_click :: "string \<Rightarrow> state \<Rightarrow> state" where
  "account_option_click account s =
     (if account \<noteq> [] then s\<lparr>selectedAccountForNewTab := Some account\<rparr> else s)"

text \<open>
  \<open>location.reload()\<close>: a new page, on which the module starts again with its initial
  state; only \<open>localStorage\<close> is kept.
\<close>

definition location_reload :: "state \<Rightarrow> state" where
  "location_reload s =
     \<lparr>tabs = [], activeTabId = JNull, selectedAccountForNewTab = None,
      selectedTabType = Some ''gui'', storage_tabs = storage_tabs s,
      storage_active = storage_active s, elements = Map.empty, next_el = 0, input_value = [],
      accountModalVisible = False\<rparr>"

text \<open>
  How the login of the handler below ends: \<open>window.claude.login()\<close> rejects, or resolves
  with its \<open>success\<close> flag; after a success the accounts are loaded again, which the bridge
  may reject.
\<close>

datatype login_result = LoginRejected | LoginResolved bool | AccountsRejected

text \<open>
  The branch of the handler below that logs in: when the login succeeds and the accounts
  are loaded again, the dialog is closed and the page is reloaded. \<open>None\<close> stands for the
  reload: the life of this page ends, and the new page starts with \<open>restoreTabs\<close>.
\<close>

definition login_and_reload :: "login_result \<Rightarrow> state \<Rightarrow> state option" where
  "login_and_reload lr s = (case lr of LoginResolved True \<Rightarrow> None | _ \<Rightarrow> Some s)"

text \<open>
  The click handler of \<open>add-account-for-tab\<close>: with an account selected it creates the tab,
  with no check of the number of tabs, and then closes the dialog, unless \<open>createTab\<close>
  threw; with none it logs in and reloads the page.
\<close>

definition addAccountForTab_click :: "string \<Rightarrow> login_result \<Rightarrow> state \<Rightarrow> state option" where
  "addAccountForTab_click uuid lr s =
     (case selectedAccountForNewTab s of
        Some account \<Rightarrow>
          if account \<noteq> []
          then Some (case createTab uuid account None (selectedTabType s) s of
                       Returned s1 \<Rightarrow> hideAccountSelectModal s1
                     | Threw e s1 \<Rightarrow> s1)
          else login_and_reload lr s
      | None \<Rightarrow> login_and_reload lr s)"

text \<open>
  The events of the new-tab flow on a page, and the clicks on a tab of the tab strip and on
  its close button. An event is one run of a handler, to its end; an event carries what the
  handler reads from the page or gets from the bridge (\<open>TabTypeClick\<close>: the \<open>data-type\<close> of
  the button, if it has one; \<open>AddAccountForTabClick\<close>: the id for a new tab and the end of
  the login). A sequence of events is followed until the page is reloaded.
\<close>

datatype ui_event =
    NewTabClick
  | TabTypeClick "string option"
  | AccountOptionClick string
  | CancelNewTabClick
  | AddAccountForTabClick string login_result
  | TabClick string
  | TabCloseClick string

fun fire :: "ui_event \<Rightarrow> state \<Rightarrow> state option" where
  "fire NewTabClick s = Some (newTabBtn_click s)"
| "fire (TabTypeClick ty) s = Some (s\<lparr>selectedTabType := ty\<rparr>)"
| "fire (AccountOptionClick account) s = Some (account_option_click account s)"
| "fire CancelNewTabClick s = Some (hideAccountSelectModal s)"
| "fire (AddAccountForTabClick uuid lr) s = addAccountForTab_click uuid lr s"
| "fire (TabClick tabId) s = Some (if tabId \<noteq> [] then switchTab tabId s else s)"
| "fire (TabCloseClick tabId) s = Some (if tabId \<noteq> [] then closeTab tabId s else s)"

fun run_events :: "ui_event list \<Rightarrow> state \<Rightarrow> state" where
  "run_events [] s = s"
| "run_events (e # es) s = (case fire e s of None \<Rightarrow> s | Some s1 \<Rightarrow> run_events es s1)"

text \<open>
  The sequences of events in which an account of the list is clicked only while the dialog
  is shown; the list is part of the dialog.
\<close>

fun account_clicks_while_shown :: "ui_event list \<Rightarrow> state \<Rightarrow> bool" where
  "account_clicks_while_shown [] s = True"
| "account_clicks_while_shown (e # es) s =
     ((case e of AccountOptionClick account \<Rightarrow> accountModalVisible s | _ \<Rightarrow> True) \<and>
      (case fire e s of None \<Rightarrow> True | Some s1 \<Rightarrow> account_clicks_while_shown es s1))"

section \<open>Conversation history\<close>

text \<open>
  \<open>new Date(v).getTime()\<close>, in milliseconds; \<open>None\<close> is \<open>NaN\<close>. How the runtime reads a
  date text (\<open>Date.parse\<close>) is a parameter. An array or an object is turned into a string
  first, which can throw.
\<close>

fun date_getTime :: "(string \<Rightarrow> int option) \<Rightarrow> jsval \<Rightarrow> exn + int option" where
  "date_getTime parseDate JUndefined = Inr None"
| "date_getTime parseDate JNull = Inr (Some 0)"
| "date_getTime parseDate (JBool b) = Inr (Some (if b then 1 else 0))"
| "date_getTime parseDate (JNum n) =
     Inr (if \<bar>number_value n\<bar> \<le> 8640000000000000 then Some (number_value n) else None)"
| "date_getTime parseDate (JStr t) = Inr (parseDate t)"
| "date_getTime parseDate v =
     (case to_js_string v of Inl e \<Rightarrow> Inl e | Inr t \<Rightarrow> Inr (parseDate t))"

text \<open>
  The comparator \<open>(a, b) => new Date(a.created_at).getTime() - new Date(b.created_at).getTime()\<close>
  answers \<open>NaN\<close> when one of the two times is \<open>NaN\<close>, which \<open>sort\<close> reads as \<open>0\<close>:
  \<open>time_le\<close> is "the comparator's answer is not positive".
\<close>

fun time_le :: "int option \<Rightarrow> int option \<Rightarrow> bool" where
  "time_le (Some x) (Some y) = (x \<le> y)"
| "time_le a b = True"

fun insert_by_time :: "int option \<times> jsval \<Rightarrow> (int option \<times> jsval) list \<Rightarrow> (int option \<times> jsval) list" where
  "insert_by_time x [] = [x]"
| "insert_by_time x (y # ys) =
     (if time_le (fst x) (fst y) then x # y # ys else y # insert_by_time x ys)"

fun with_time :: "(string \<Rightarrow> int option) \<Rightarrow> jsval list \<Rightarrow> exn + (int option \<times> jsval) list" where
  "with_time parseDate [] = Inr []"
| "with_time parseDate (m # ms) =
     (case get_prop m ''created_at'' of
        Inl e \<Rightarrow> Inl e
      | Inr v \<Rightarrow>
          (case date_getTime parseDate v of
             Inl e \<Rightarrow> Inl e
           | Inr t \<Rightarrow>
               (case with_time parseDate ms of
                  Inl e \<Rightarrow> Inl e
                | Inr rest \<Rightarrow> Inr ((t, m) # rest))))"

text \<open>
  \<open>[...messages].sort(comparator)\<close>. The \<open>undefined\<close> elements go to the end without being
  compared. With two or more other elements each of them is compared, so the sort throws
  when the time cannot be read from one of them; one element alone is never compared. The
  sort is stable. When some time is \<open>NaN\<close> the comparator is not consistent and the language
  leaves the order to the runtime: the model then gives the order of a stable insertion
  sort.
\<close>

definition sort_messages :: "(string \<Rightarrow> int option) \<Rightarrow> jsval list \<Rightarrow> exn + jsval list" where
  "sort_messages parseDate ms =
     (let defined = filter (\<lambda>m. m \<noteq> JUndefined) ms;
          undefs = filter (\<lambda>m. m = JUndefined) ms
      in if length defined < 2 then Inr (defined @ undefs)
         else (case with_time parseDate defined of
                 Inl e \<Rightarrow> Inl e
               | Inr timed \<Rightarrow> Inr (map snd (foldr insert_by_time timed []) @ undefs)))"

text \<open>The text blocks of \<open>msg.content\<close>: the loop that fills \<open>textParts\<close>.\<close>

fun text_parts :: "jsval list \<Rightarrow> exn + jsval list" where
  "text_parts [] = Inr []"
| "text_parts (contentBlock # rest) =
     (case get_prop contentBlock ''type'' of
        Inl e \<Rightarrow> Inl e
      | Inr ty \<Rightarrow>
          (case get_prop contentBlock ''text'' of
             Inl e \<Rightarrow> Inl e
           | Inr tx \<Rightarrow>
               (case text_parts rest of
                  Inl e \<Rightarrow> Inl e
                | Inr parts \<Rightarrow>
                    Inr (if strict_eq ty (JStr ''text'') \<and> truthy tx then tx # parts else parts))))"

text \<open>
  The text of one history message, up to the log line
  \<open>messageText?.substring(0, 50)\<close>, which throws on a text that is not a string.
\<close>

definition message_text :: "jsval \<Rightarrow> exn + string" where
  "message_text msg =
     (case get_prop msg ''text'' of
        Inl e \<Rightarrow> Inl e
      | Inr t \<Rightarrow>
          (case (if truthy t then Inr t
                 else (case get_prop msg ''content'' of
                         Inl e \<Rightarrow> Inl e
                       | Inr (JArr a blocks) \<Rightarrow>
                           (case text_parts blocks of
                              Inl e \<Rightarrow> Inl e
                            | Inr parts \<Rightarrow>
                                (case all_results (map to_js_string parts) of
                                   Inl e \<Rightarrow> Inl e
                                 | Inr ts \<Rightarrow> Inr (JStr (join [CHR 0x0A] ts))))
                       | Inr c \<Rightarrow> Inr (JStr []))) of
             Inl e \<Rightarrow> Inl e
           | Inr (JStr messageText) \<Rightarrow> Inr messageText
           | Inr v \<Rightarrow> Inl TypeError))"

text \<open>
  The loop over the sorted messages. An exception leaves the loop; what was rendered before
  it stays. The result is the new state and whether the loop came to its end.
\<close>

fun render_messages :: "(string \<Rightarrow> string) \<Rightarrow> jsval list \<Rightarrow> state \<Rightarrow> state \<times> bool" where
  "render_messages marked [] s = (s, True)"
| "render_messages marked (msg # rest) s =
     (case message_text msg of
        Inl e \<Rightarrow> (s, False)
      | Inr messageText \<Rightarrow>
          if messageText = [] then render_messages marked rest s
          else
            (case get_prop msg ''sender'' of
               Inl e \<Rightarrow> (s, False)
             | Inr sender \<Rightarrow>
                 if strict_eq sender (JStr ''human'')
                 then render_messages marked rest (fst (addMessage marked User messageText False s))
                 else if strict_eq sender (JStr ''assistant'')
                 then render_messages marked rest
                        (fst (addMessage marked Assistant messageText False s))
                 else render_messages marked rest s))"

text \<open>How \<open>window.claude.loadConversation\<close> ends.\<close>

datatype load_result = LoadRejected | Loaded jsval

text \<open>\<open>data.chat_messages || data.messages || data.chat_history\<close>, for a \<open>data\<close> that is truthy.\<close>

definition messages_field :: "jsval \<Rightarrow> jsval" where
  "messages_field data =
     (case get_prop data ''chat_messages'' of
        Inr v1 \<Rightarrow>
          if truthy v1 then v1
          else (case get_prop data ''messages'' of
                  Inr v2 \<Rightarrow>
                    if truthy v2 then v2
                    else (case get_prop data ''chat_history'' of Inr v3 \<Rightarrow> v3 | Inl e \<Rightarrow> JUndefined)
                | Inl e \<Rightarrow> JUndefined)
      | Inl e \<Rightarrow> JUndefined)"

text \<open>
  The end of the \<open>try\<close> block: the tab (at position \<open>i\<close>) gets the \<open>uuid\<close> of the last
  sorted message, which the next log line prints in a template literal, and then the name
  of the conversation when it has one. An exception ends the block where it is thrown: the
  result is the state reached.
\<close>

definition finish_history :: "nat \<Rightarrow> jsval \<Rightarrow> jsval list \<Rightarrow> state \<Rightarrow> state" where
  "finish_history i data sortedMessages s =
     (case (if sortedMessages = [] then Returned s
            else (case get_prop (last sortedMessages) ''uuid'' of
                    Inl e \<Rightarrow> Threw e s
                  | Inr u \<Rightarrow>
                      if printable u
                      then Returned (update_tab i (\<lambda>t. t\<lparr>parentMessageUuid := u\<rparr>) s)
                      else Threw TypeError (update_tab i (\<lambda>t. t\<lparr>parentMessageUuid := u\<rparr>) s))) of
        Threw e s1 \<Rightarrow> s1
      | Returned s1 \<Rightarrow>
          (case get_prop data ''name'' of
             Inr (JStr n) \<Rightarrow>
               if n \<noteq> [] \<and> trim n \<noteq> []
               then state_of (updateTabName (tab_id (tabs s1 ! i)) (JStr n) s1)
               else s1
           | _ \<Rightarrow> s1))"

text \<open>
  \<open>loadConversationHistory(tab)\<close> for the tab at position \<open>i\<close>, run to its end with no
  other handler in between; \<open>load\<close> is the bridge's \<open>loadConversation\<close>. The first log line,
  before the \<open>try\<close>, prints the \<open>conversationId\<close> in a template literal; every exception
  after it ends in the \<open>catch\<close> of the function.
\<close>

definition loadConversationHistory ::
  "(string \<Rightarrow> string) \<Rightarrow> (string \<Rightarrow> int option) \<Rightarrow> (jsval \<Rightarrow> load_result) \<Rightarrow> nat \<Rightarrow> state \<Rightarrow> outcome" where
  "loadConversationHistory marked parseDate load i s =
     (if \<not> truthy (conversationId (tabs s ! i)) \<or> messages (tabs s ! i) \<noteq> [] then Returned s
      else if \<not> printable (conversationId (tabs s ! i)) then Threw TypeError s
      else
        Returned
          (case load (conversationId (tabs s ! i)) of
             LoadRejected \<Rightarrow> s
           | Loaded data \<Rightarrow>
               if \<not> truthy data then s
               else
                 (case messages_field data of
                    JArr a msgs \<Rightarrow>
                      (case sort_messages parseDate msgs of
                         Inl e \<Rightarrow> s
                       | Inr sortedMessages \<Rightarrow>
                           (case render_messages marked sortedMessages s of
                              (s1, False) \<Rightarrow> s1
                            | (s1, True) \<Rightarrow> finish_history i data sortedMessages s1))
                  | _ \<Rightarrow> s)))"

section \<open>Persistence\<close>

text \<open>
  The tab that \<open>restoreTabs\<close> builds from one entry of the parsed array. The log line
  before the tab is built prints the \<open>name\<close> of the entry and the tab type in a template
  literal.
\<close>

definition tab_of_entry :: "jsval \<Rightarrow> exn + ChatTab" where
  "tab_of_entry tabData =
     (if tabData = JUndefined \<or> tabData = JNull then Inl TypeError
      else
        let prop = (\<lambda>k. case get_prop tabData k of Inr v \<Rightarrow> v | Inl e \<Rightarrow> JUndefined);
            ty = (if truthy (prop ''tabType'') then prop ''tabType''
                  else if truthy (prop ''displayMode'') then prop ''displayMode''
                  else JStr ''gui'')
        in if \<not> (printable (prop ''name'') \<and> printable ty) then Inl TypeError
           else Inr \<lparr>tab_id = prop ''id'', name = prop ''name'', accountId = prop ''accountId'',
                     conversationId = prop ''conversationId'',
                     parentMessageUuid = prop ''parentMessageUuid'', model = prop ''model'',
                     messages = [], isLoading = False, streamingElement = None,
                     pendingAttachments = [], tabType = ty, terminal = None\<rparr>)"

text \<open>
  The loop \<open>for (const tabData of parsed)\<close>: each tab is pushed as it is built, so the tabs
  built before an exception stay. The result is the tabs and whether the loop came to its
  end.
\<close>

fun restore_entries :: "jsval list \<Rightarrow> ChatTab list \<Rightarrow> ChatTab list \<times> bool" where
  "restore_entries [] acc = (acc, True)"
| "restore_entries (tabData # rest) acc =
     (case tab_of_entry tabData of
        Inl e \<Rightarrow> (acc, False)
      | Inr tab \<Rightarrow> restore_entries rest (acc @ [tab]))"

text \<open>
  What \<open>for ... of\<close> iterates over: the elements of an array, the characters of a string,
  and a \<open>TypeError\<close> for every other value.
\<close>

fun js_iterate :: "jsval \<Rightarrow> exn + jsval list" where
  "js_iterate (JArr a xs) = Inr xs"
| "js_iterate (JStr t) = Inr (map (\<lambda>c. JStr [c]) t)"
| "js_iterate v = Inl TypeError"

text \<open>The \<open>if (tabsData) { try { ... } catch { ... } }\<close> of \<open>restoreTabs\<close>.\<close>

definition restore_snapshot :: "state \<Rightarrow> state" where
  "restore_snapshot s =
     (case storage_tabs s of
        None \<Rightarrow> s
      | Some tabsData \<Rightarrow>
          if tabsData = EmptyText then s
          else
            (case JSON_parse tabsData of
               Inl e \<Rightarrow> s
             | Inr parsed \<Rightarrow>
                 (case js_iterate parsed of
                    Inl e \<Rightarrow> s
                  | Inr entries \<Rightarrow>
                      (case restore_entries entries (tabs s) of
                         (ts, False) \<Rightarrow> s\<lparr>tabs := ts\<rparr>
                       | (ts, True) \<Rightarrow>
                           let s1 = s\<lparr>tabs := ts\<rparr> in
                           (case storage_active s1 of
                              Some savedActiveTabId \<Rightarrow>
                                if savedActiveTabId \<noteq> []
                                   \<and> find_index (\<lambda>t. strict_eq (tab_id t) (JStr savedActiveTabId))
                                        (tabs s1) \<noteq> None
                                then s1\<lparr>activeTabId := JStr savedActiveTabId\<rparr>
                                else if tabs s1 \<noteq> [] then s1\<lparr>activeTabId := tab_id (tabs s1 ! 0)\<rparr>
                                else s1
                            | None \<Rightarrow>
                                if tabs s1 \<noteq> [] then s1\<lparr>activeTabId := tab_id (tabs s1 ! 0)\<rparr>
                                else s1)))))"

text \<open>
  The loop \<open>for (const tab of tabs)\<close> that loads the histories, over the positions of
  \<open>tabs\<close>; each test reads the state that the loads before it left, and a load that throws
  ends the loop.
\<close>

fun load_histories ::
  "(string \<Rightarrow> string) \<Rightarrow> (string \<Rightarrow> int option) \<Rightarrow> (jsval \<Rightarrow> load_result) \<Rightarrow> nat list \<Rightarrow> state \<Rightarrow> outcome" where
  "load_histories marked parseDate load [] s = Returned s"
| "load_histories marked parseDate load (i # rest) s =
     (if truthy (conversationId (tabs s ! i)) \<and> messages (tabs s ! i) = []
      then (case loadConversationHistory marked parseDate load i s of
              Returned s1 \<Rightarrow> load_histories marked parseDate load rest s1
            | Threw e s1 \<Rightarrow> Threw e s1)
      else load_histories marked parseDate load rest s)"

text \<open>
  How \<open>window.claude.getActiveAccount()\<close> ends: it rejects, or resolves with \<open>success\<close> and
  the \<open>id\<close> of the account, if there is an account.
\<close>

datatype account_result = AccountRejected | AccountResolved bool "string option"

text \<open>What an \<open>async\<close> function settles with: the exception, or the state it returns in.\<close>

fun settled :: "outcome \<Rightarrow> exn + state" where
  "settled (Returned s) = Inr s"
| "settled (Threw e s) = Inl e"

text \<open>
  \<open>restoreTabs\<close>. \<open>uuid\<close> is the id that \<open>crypto.randomUUID()\<close> gives if a default tab is
  created. Nothing after the \<open>try\<close> block is caught: not a rejection of
  \<open>getActiveAccount\<close>, and not what drawing the restored tabs throws.
\<close>

definition restoreTabs ::
  "(string \<Rightarrow> string) \<Rightarrow> (string \<Rightarrow> int option) \<Rightarrow> (jsval \<Rightarrow> load_result) \<Rightarrow> account_result
     \<Rightarrow> string \<Rightarrow> state \<Rightarrow> exn + state" where
  "restoreTabs marked parseDate load activeAccount uuid s =
     (let s1 = restore_snapshot s in
      if tabs s1 = [] then
        (case activeAccount of
           AccountRejected \<Rightarrow> Inl BridgeRejected
         | AccountResolved success account \<Rightarrow>
             (case account of
                Some accId \<Rightarrow>
                  if success then settled (createTab uuid accId (Some ''Chat 1'') None s1)
                  else Inr s1
              | None \<Rightarrow> Inr s1))
      else
        settled
          (run_steps [renderTabs, returns renderActiveTab, updateInputBadge, updateModelSelector,
                      load_histories marked parseDate load [0..<length (tabs s1)],
                      returns renderActiveTab] s1))"

section \<open>Reference notions and example states\<close>

definition example_tab :: "string \<Rightarrow> ChatTab" where
  "example_tab tid =
     \<lparr>tab_id = JStr tid, name = JStr ''Chat'', accountId = JStr ''acc'', conversationId = JNull,
      parentMessageUuid = JNull, model = JStr ''claude-opus-4-5-20251101'', messages = [],
      isLoading = False, streamingElement = None, pendingAttachments = [],
      tabType = JStr ''gui'', terminal = None\<rparr>"

definition example_state :: "ChatTab list \<Rightarrow> jsval \<Rightarrow> state" where
  "example_state ts active =
     \<lparr>tabs = ts, activeTabId = active, selectedAccountForNewTab = None,
      selectedTabType = Some ''gui'', storage_tabs = None, storage_active = None,
      elements = Map.empty, next_el = 0, input_value = [], accountModalVisible = False\<rparr>"

text \<open>A tab without its terminal widget: every field of the tab but \<open>terminal\<close>.\<close>

definition erase_terminal :: "ChatTab \<Rightarrow> ChatTab" where
  "erase_terminal t = t\<lparr>terminal := None\<rparr>"

text \<open>
  The stream events of the bridge, handled one after the other in the order in which they
  are received.
\<close>

fun deliver_stream :: "(string \<Rightarrow> string) \<Rightarrow> StreamData list \<Rightarrow> state \<Rightarrow> state" where
  "deliver_stream marked [] s = s"
| "deliver_stream marked (d # ds) s = deliver_stream marked ds (onMessageStream marked d s)"

definition example_attachment :: UploadedAttachment where
  "example_attachment =
     \<lparr>document_id = ''doc-1'', file_name = ''notes.txt'', file_size = 12,
      file_type = ''text/plain'', file_url = None, extracted_content = Some ''hello'',
      att_id = ''local-1''\<rparr>"

definition second_attachment :: UploadedAttachment where
  "second_attachment =
     \<lparr>document_id = ''doc-2'', file_name = ''plan.pdf'', file_size = 2048,
      file_type = ''application/pdf'', file_url = Some ''blob:2'', extracted_content = None,
      att_id = ''local-2''\<rparr>"

text \<open>A tab in the middle of a send: a user message and the placeholder of the reply.\<close>

definition streaming_state :: state where
  "streaming_state =
     (example_state
        [(example_tab ''a'')\<lparr>conversationId := JStr ''c1'', messages := [0, 1],
                              isLoading := True, streamingElement := Some 1\<rparr>] (JStr ''a''))
       \<lparr>elements := [0 \<mapsto> \<lparr>el_role = User, innerHTML = ''hi''\<rparr>,
                1 \<mapsto> \<lparr>el_role = Assistant, innerHTML = []\<rparr>],
        next_el := 2\<rparr>"

text \<open>A tab with a conversation and a message typed into the input box.\<close>

definition ready_state :: state where
  "ready_state =
     (example_state
        [(example_tab ''a'')\<lparr>conversationId := JStr ''c1'', parentMessageUuid := JStr ''p0''\<rparr>]
        (JStr ''a''))\<lparr>input_value := ''hi''\<rparr>"

text \<open>
  A send that waits for its conversation while a file is attached: the active tab, with
  one pending attachment when the send starts and two when it goes on.
\<close>

definition attaching_state :: state where
  "attaching_state =
     example_state
       [(example_tab ''a'')\<lparr>pendingAttachments := [example_attachment, second_attachment]\<rparr>]
       (JStr ''a'')"

text \<open>A \<open>cli\<close> tab with its terminal, and no conversation yet.\<close>

definition cli_state :: state where
  "cli_state =
     example_state [(example_tab ''a'')\<lparr>tabType := JStr ''cli'', terminal := Some []\<rparr>] (JStr ''a'')"

text \<open>A registry at capacity.\<close>

definition full_state :: state where
  "full_state = example_state [example_tab ''a'', example_tab ''b'', example_tab ''c''] (JStr ''a'')"

text \<open>
  A tab that the page can present: \<open>renderTabs\<close> can draw it (its \<open>accountId\<close> is a
  string, its \<open>name\<close> a string or falsy, its \<open>id\<close> printable), and its \<open>model\<close>, its
  \<open>tabType\<close> and its \<open>conversationId\<close> can be printed.
\<close>

definition tab_presentable :: "ChatTab \<Rightarrow> bool" where
  "tab_presentable t =
     (tab_renders t \<and> printable (model t) \<and> printable (tabType t) \<and>
      printable (conversationId t))"

text \<open>
  What holds along the new-tab flow: at most \<open>MAX_TABS\<close> tabs, fewer while the account
  dialog is shown, an account selected only while it is shown, and every tab one that
  the page can present.
\<close>

definition flow_inv :: "state \<Rightarrow> bool" where
  "flow_inv s =
     (length (tabs s) \<le> MAX_TABS \<and>
      (if accountModalVisible s then length (tabs s) < MAX_TABS else True) \<and>
      (if selectedAccountForNewTab s \<noteq> None then accountModalVisible s else True) \<and>
      list_all tab_presentable (tabs s))"

text \<open>
  What re-rendering and saving keep of a state: every field of every tab but the terminal,
  the active id, and the dialog.
\<close>

definition footprint :: "state \<Rightarrow> ChatTab list \<times> jsval \<times> bool \<times> string option" where
  "footprint s =
     (map erase_terminal (tabs s), activeTabId s, accountModalVisible s, selectedAccountForNewTab s)"

text \<open>
  The property \<open>k\<close> of a stored value as the data has it: the first entry of the key in an
  object, and \<open>undefined\<close> when there is none or the value is not an object.
\<close>

fun js_prop :: "jsval \<Rightarrow> string \<Rightarrow> jsval" where
  "js_prop (JObj a kvs) k = (case map_of kvs k of Some v \<Rightarrow> v | None \<Rightarrow> JUndefined)"
| "js_prop v k = JUndefined"

text \<open>
  The tab type of a stored entry: its \<open>tabType\<close>, or else its \<open>displayMode\<close> (the name of
  the field in older snapshots), or else \<open>gui\<close>.
\<close>

definition entry_type :: "jsval \<Rightarrow> jsval" where
  "entry_type e =
     (if truthy (js_prop e ''tabType'') then js_prop e ''tabType''
      else if truthy (js_prop e ''displayMode'') then js_prop e ''displayMode''
      else JStr ''gui'')"

text \<open>
  An entry of the stored array that the loop of \<open>restoreTabs\<close> gets past: it is not \<open>null\<close>
  (or \<open>undefined\<close>), and its name and tab type can be printed.
\<close>

definition entry_readable :: "jsval \<Rightarrow> bool" where
  "entry_readable e =
     (e \<noteq> JUndefined \<and> e \<noteq> JNull \<and> printable (js_prop e ''name'') \<and> printable (entry_type e))"

text \<open>
  A tab as restored from an entry: each durable field is the field of the entry
  (\<open>undefined\<close> when the entry lacks it), and the other fields have their initial values.
\<close>

definition restored_from :: "jsval \<Rightarrow> ChatTab \<Rightarrow> bool" where
  "restored_from e t =
     (tab_id t = js_prop e ''id'' \<and> name t = js_prop e ''name'' \<and>
      accountId t = js_prop e ''accountId'' \<and> conversationId t = js_prop e ''conversationId'' \<and>
      parentMessageUuid t = js_prop e ''parentMessageUuid'' \<and> model t = js_prop e ''model'' \<and>
      tabType t = entry_type e \<and> messages t = [] \<and> \<not> isLoading t \<and>
      streamingElement t = None \<and> pendingAttachments t = [] \<and> terminal t = None)"

text \<open>
  A fresh page whose stored snapshot has a \<open>null\<close> entry before a well-formed one, one
  with a \<open>null\<close> entry between two well-formed ones, the second of them without a name,
  and one whose only entry has no \<open>accountId\<close>.
\<close>

definition broken_storage :: state where
  "broken_storage =
     (example_state [] JNull)
       \<lparr>storage_tabs := Some (Json (JArr [] [JNull, tab_snapshot (example_tab ''a'')])),
        storage_active := Some ''a''\<rparr>"

definition nameless_entry :: jsval where
  "nameless_entry = JObj [] [(''id'', JStr ''n''), (''accountId'', JStr ''acc'')]"

definition mixed_storage :: state where
  "mixed_storage =
     (example_state [] JNull)
       \<lparr>storage_tabs :=
          Some (Json (JArr [] [tab_snapshot (example_tab ''a''), nameless_entry, JNull,
                               tab_snapshot (example_tab ''b'')])),
        storage_active := Some ''b''\<rparr>"

definition no_account_storage :: state where
  "no_account_storage =
     (example_state [] JNull)
       \<lparr>storage_tabs := Some (Json (JArr [] [JObj [] [(''id'', JStr ''a''), (''name'', JStr ''A'')]])),
        storage_active := Some ''a''\<rparr>"

text \<open>
  A tab whose durable fields have the types of the \<open>ChatTab\<close> interface: strings,
  \<open>conversationId\<close> and \<open>parentMessageUuid\<close> a string or \<open>null\<close>, \<open>tabType\<close> one of
  \<open>gui\<close> and \<open>cli\<close>.
\<close>

definition well_typed_tab :: "ChatTab \<Rightarrow> bool" where
  "well_typed_tab t =
     (is_string (tab_id t) \<and> is_string (name t) \<and> is_string (accountId t) \<and>
      is_string_or_null (conversationId t) \<and> is_string_or_null (parentMessageUuid t) \<and>
      is_string (model t) \<and> (tabType t = JStr ''gui'' \<or> tabType t = JStr ''cli''))"

text \<open>
  A tab as it is after a reload: the fields that \<open>saveTabs\<close> does not write are back at
  their initial values.
\<close>

definition reset_transient :: "ChatTab \<Rightarrow> ChatTab" where
  "reset_transient t =
     t\<lparr>messages := [], isLoading := False, streamingElement := None, pendingAttachments := [],
       terminal := None\<rparr>"

text \<open>
  A tab without the fields that loading the history and re-rendering may write:
  \<open>messages\<close>, \<open>parentMessageUuid\<close>, \<open>name\<close> and \<open>terminal\<close>.
\<close>

definition history_free :: "ChatTab \<Rightarrow> ChatTab" where
  "history_free t =
     t\<lparr>messages := [], parentMessageUuid := JNull, name := JNull, terminal := None\<rparr>"

text \<open>A tab with a conversation, and a history of one message for it.\<close>

definition chat_state :: state where
  "chat_state =
     example_state
       [(example_tab ''a'')\<lparr>conversationId := JStr ''c1'', parentMessageUuid := JStr ''p0''\<rparr>]
       (JStr ''a'')"

definition one_message_history :: jsval where
  "one_message_history =
     JObj []
       [(''chat_messages'',
         JArr [0] [JObj [0, 0] [(''uuid'', JStr ''m1''), (''text'', JStr ''hello''),
                               (''sender'', JStr ''human''), (''created_at'', JStr ''2024-01-01'')]])]"





















section \<open>Properties\<close>

subsection \<open>Auxiliary facts\<close>

lemma find_index_Some_less: "find_index P xs = Some i \<Longrightarrow> i < length xs"
  by (induction xs arbitrary: i) (auto split: if_splits option.splits)

lemma find_index_Some_holds: "find_index P xs = Some i \<Longrightarrow> P (xs ! i)"
  by (induction xs arbitrary: i) (auto split: if_splits option.splits)

lemma find_index_None: "\<forall>x \<in> set xs. \<not> P x \<Longrightarrow> find_index P xs = None"
  by (induction xs) auto

lemma find_index_not_None: "x \<in> set xs \<Longrightarrow> P x \<Longrightarrow> find_index P xs \<noteq> None"
  by (induction xs) (auto split: option.splits)

lemma find_index_cong_map:
  "map f xs = map f ys \<Longrightarrow> find_index (\<lambda>t. P (f t)) xs = find_index (\<lambda>t. P (f t)) ys"
proof (induction xs arbitrary: ys)
  case Nil
  then show ?case by simp
next
  case (Cons x xs)
  then obtain y ys' where ys: "ys = y # ys'" by (cases ys) auto
  with Cons.prems have "f x = f y" "map f xs = map f ys'" by auto
  with Cons.IH [of ys'] ys show ?case by simp
qed

lemma strict_eq_JStr: "strict_eq a (JStr t) = (a = JStr t)"
  by (cases a) auto

lemma map_update_same:
  assumes "f y = f (xs ! i)"
  shows "map f (xs[i := y]) = map f xs"
proof (cases "i < length xs")
  case True
  with assms show ?thesis by (simp add: map_update list_update_same_conv)
next
  case False
  then have "length xs \<le> i" by simp
  then show ?thesis by (simp add: list_update_beyond)
qed

lemma nth_update_tab:
  "tabs (update_tab j f s) ! k =
     (if k = j \<and> j < length (tabs s) then f (tabs s ! k) else tabs s ! k)"
proof (cases "j < length (tabs s)")
  case True
  then show ?thesis by (simp add: update_tab_def nth_list_update)
next
  case False
  then have "length (tabs s) \<le> j" by simp
  then show ?thesis by (simp add: update_tab_def list_update_beyond)
qed

lemma length_tabs_update_tab: "length (tabs (update_tab j f s)) = length (tabs s)"
  by (simp add: update_tab_def)

lemma activeTabId_update_tab: "activeTabId (update_tab i f s) = activeTabId s"
  by (simp add: update_tab_def)

lemma elements_update_tab: "elements (update_tab i f s) = elements s"
  by (simp add: update_tab_def)

lemma map_tabs_update_tab:
  "(\<And>t. g (f t) = g t) \<Longrightarrow> map g (tabs (update_tab i f s)) = map g (tabs s)"
  by (simp add: update_tab_def map_update_same)

lemma tabs_saveTabs: "tabs (saveTabs s) = tabs s"
  by (simp add: saveTabs_def Let_def split: sum.splits)

lemma activeTabId_saveTabs: "activeTabId (saveTabs s) = activeTabId s"
  by (simp add: saveTabs_def Let_def split: sum.splits)

lemma dialog_saveTabs:
  "accountModalVisible (saveTabs s) = accountModalVisible s"
  "selectedAccountForNewTab (saveTabs s) = selectedAccountForNewTab s"
  by (simp_all add: saveTabs_def Let_def split: sum.splits)


lemma activeTabId_renderActiveTab: "activeTabId (renderActiveTab s) = activeTabId s"
  by (simp add: renderActiveTab_def initializeTerminal_def update_tab_def split: option.splits)

lemma length_tabs_renderActiveTab: "length (tabs (renderActiveTab s)) = length (tabs s)"
  by (simp add: renderActiveTab_def initializeTerminal_def update_tab_def split: option.splits)

lemma map_tabs_renderActiveTab:
  "(\<And>t v. g (t\<lparr>terminal := v\<rparr>) = g t) \<Longrightarrow> map g (tabs (renderActiveTab s)) = map g (tabs s)"
  by (simp add: renderActiveTab_def initializeTerminal_def map_tabs_update_tab split: option.splits)

lemma erase_terminal_renderActiveTab:
  "map erase_terminal (tabs (renderActiveTab s)) = map erase_terminal (tabs s)"
  by (rule map_tabs_renderActiveTab) (simp add: erase_terminal_def)

lemma dialog_renderActiveTab:
  "accountModalVisible (renderActiveTab s) = accountModalVisible s"
  "selectedAccountForNewTab (renderActiveTab s) = selectedAccountForNewTab s"
  by (simp_all add: renderActiveTab_def initializeTerminal_def update_tab_def split: option.splits)

lemma elements_renderActiveTab:
  "elements (renderActiveTab s) = elements s" "next_el (renderActiveTab s) = next_el s"
  by (simp_all add: renderActiveTab_def initializeTerminal_def update_tab_def split: option.splits)

text \<open>The steps that only draw, and what a sequence of steps keeps.\<close>

lemma state_of_draw:
  "state_of (renderTabs s) = s" "state_of (updateInputBadge s) = s"
  "state_of (updateModelSelector s) = s" "state_of (updateModeToggle s) = s"
  "state_of (returns f s) = f s" "state_of (saveTabs_step s) = saveTabs s"
  by (simp_all add: renderTabs_def updateInputBadge_def updateModelSelector_def
        updateModeToggle_def returns_def saveTabs_step_def split: option.splits)

lemma run_steps_keeps:
  assumes "\<And>f x. f \<in> set fs \<Longrightarrow> g (state_of (f x)) = g x"
  shows "g (state_of (run_steps fs s)) = g s"
  using assms
proof (induction fs arbitrary: s)
  case Nil
  then show ?case by simp
next
  case (Cons f fs)
  have f: "g (state_of (f s)) = g s" using Cons.prems by simp
  show ?case
  proof (cases "f s")
    case (Returned s1)
    with f have "g s1 = g s" by simp
    moreover have "g (state_of (run_steps fs s1)) = g s1"
      using Cons.IH [of s1] Cons.prems by simp
    ultimately show ?thesis using Returned by simp
  next
    case (Threw e s1)
    with f show ?thesis by simp
  qed
qed

lemma length_tabs_addMessage: "length (tabs (fst (addMessage m r c raw s))) = length (tabs s)"
  by (simp add: addMessage_def Let_def length_tabs_update_tab split: option.splits)

lemma pending_addMessage:
  "pendingAttachments (tabs (fst (addMessage m r c raw s)) ! k) = pendingAttachments (tabs s ! k)"
  by (simp add: addMessage_def Let_def nth_update_tab split: option.splits)

lemma activeTabId_addMessage: "activeTabId (fst (addMessage marked r c raw s)) = activeTabId s"
  by (simp add: addMessage_def Let_def activeTabId_update_tab split: option.splits)

lemma tabs_set_innerHTML: "tabs (set_innerHTML a h s) = tabs s"
  by (simp add: set_innerHTML_def)

subsection \<open>Closing a tab\<close>

lemma closeTab_keeps:
  assumes "\<And>x. g (renderActiveTab x) = g x" and "\<And>x. g (saveTabs x) = g x"
  shows "g (state_of (run_steps [renderTabs, returns renderActiveTab, updateInputBadge,
                                 updateModelSelector, saveTabs_step] s)) = g s"
  by (rule run_steps_keeps) (auto simp: state_of_draw assms)

text \<open>
  Claim C4. \<open>closeTab\<close> on a registry with exactly one tab changes nothing at all. On a
  registry with two or more tabs, one of which has the id, it removes that tab (the first
  with the id): one tab fewer, the other tabs in their order and unchanged in every field
  but the terminal widget, which the re-rendering may create for the tab that is now
  active. If the closed tab was the active one, the new active tab is the one just before it,
  or, when the closed tab was the first, the tab that is now the first. If it was not,
  the active tab stays.
\<close>

theorem closeTab_spec:
  "(length (tabs s) = 1 \<longrightarrow> closeTab tabId s = s) \<and>
   (2 \<le> length (tabs s) \<and>
    find_index (\<lambda>t. strict_eq (tab_id t) (JStr tabId)) (tabs s) = Some i \<longrightarrow>
      length (tabs (closeTab tabId s)) = length (tabs s) - 1 \<and>
      map erase_terminal (tabs (closeTab tabId s)) = map erase_terminal (splice1 i (tabs s)) \<and>
      (activeTabId s = JStr tabId \<longrightarrow>
         activeTabId (closeTab tabId s) =
           (if i = 0 then tab_id (tabs s ! 1) else tab_id (tabs s ! (i - 1)))) \<and>
      (activeTabId s \<noteq> JStr tabId \<longrightarrow> activeTabId (closeTab tabId s) = activeTabId s))"
proof (intro conjI impI)
  assume "length (tabs s) = 1"
  then show "closeTab tabId s = s" by (simp add: closeTab_def)
next
  assume h: "2 \<le> length (tabs s) \<and>
    find_index (\<lambda>t. strict_eq (tab_id t) (JStr tabId)) (tabs s) = Some i"
  then have i: "i < length (tabs s)" using find_index_Some_less by fastforce
  have len: "length (tabs (state_of (run_steps [renderTabs, returns renderActiveTab,
               updateInputBadge, updateModelSelector, saveTabs_step] x))) = length (tabs x)" for x
    by (rule closeTab_keeps [of "\<lambda>x. length (tabs x)"])
       (simp_all add: length_tabs_renderActiveTab tabs_saveTabs)
  have era: "map erase_terminal (tabs (state_of (run_steps [renderTabs, returns renderActiveTab,
               updateInputBadge, updateModelSelector, saveTabs_step] x)))
             = map erase_terminal (tabs x)" for x
    by (rule closeTab_keeps [of "\<lambda>x. map erase_terminal (tabs x)"])
       (simp_all add: erase_terminal_renderActiveTab tabs_saveTabs)
  have act: "activeTabId (state_of (run_steps [renderTabs, returns renderActiveTab,
               updateInputBadge, updateModelSelector, saveTabs_step] x)) = activeTabId x" for x
    by (rule closeTab_keeps [of activeTabId])
       (simp_all add: activeTabId_renderActiveTab activeTabId_saveTabs)
  from h i show "length (tabs (closeTab tabId s)) = length (tabs s) - 1"
    by (auto simp: closeTab_def Let_def len splice1_def simp del: run_steps.simps)
  from h show "map erase_terminal (tabs (closeTab tabId s)) = map erase_terminal (splice1 i (tabs s))"
    by (auto simp: closeTab_def Let_def era simp del: run_steps.simps)
  { assume a: "activeTabId s = JStr tabId"
    show "activeTabId (closeTab tabId s) =
           (if i = 0 then tab_id (tabs s ! 1) else tab_id (tabs s ! (i - 1)))"
      using h i a
      by (auto simp: closeTab_def Let_def act splice1_def nth_append min_def
            simp del: run_steps.simps) }
  { assume a: "activeTabId s \<noteq> JStr tabId"
    show "activeTabId (closeTab tabId s) = activeTabId s"
      using h a
      by (auto simp: closeTab_def Let_def act strict_eq_JStr simp del: run_steps.simps) }
qed

theorem closeTab_spec_witness:
  "length (tabs (example_state [example_tab ''a''] (JStr ''a''))) = 1 \<and>
   closeTab ''a'' (example_state [example_tab ''a''] (JStr ''a''))
     = example_state [example_tab ''a''] (JStr ''a'') \<and>
   2 \<le> length (tabs (example_state [example_tab ''a'', example_tab ''b''] (JStr ''b''))) \<and>
   find_index (\<lambda>t. strict_eq (tab_id t) (JStr ''b''))
     (tabs (example_state [example_tab ''a'', example_tab ''b''] (JStr ''b''))) = Some 1 \<and>
   activeTabId (example_state [example_tab ''a'', example_tab ''b''] (JStr ''b'')) = JStr ''b'' \<and>
   map erase_terminal
     (tabs (closeTab ''b'' (example_state [example_tab ''a'', example_tab ''b''] (JStr ''b''))))
     = [erase_terminal (example_tab ''a'')] \<and>
   activeTabId (closeTab ''b'' (example_state [example_tab ''a'', example_tab ''b''] (JStr ''b'')))
     = JStr ''a'' \<and>
   find_index (\<lambda>t. strict_eq (tab_id t) (JStr ''a''))
     (tabs (example_state [example_tab ''a'', example_tab ''b''] (JStr ''b''))) = Some 0 \<and>
   activeTabId (example_state [example_tab ''a'', example_tab ''b''] (JStr ''b'')) \<noteq> JStr ''a'' \<and>
   activeTabId (closeTab ''a'' (example_state [example_tab ''a'', example_tab ''b''] (JStr ''b'')))
     = JStr ''b''"
  using closeTab_spec [of "example_state [example_tab ''a''] (JStr ''a'')" "''a''"]
    closeTab_spec [of "example_state [example_tab ''a'', example_tab ''b''] (JStr ''b'')" "''b''" 1]
    closeTab_spec [of "example_state [example_tab ''a'', example_tab ''b''] (JStr ''b'')" "''a''" 0]
  by (simp add: example_state_def example_tab_def splice1_def erase_terminal_def)

subsection \<open>A send that gets no conversation\<close>

text \<open>
  When the active tab has no conversation id and the bridge fails to create a
  conversation, \<open>sendMessage\<close> itself returns with the whole state as it was and without a
  request to the bridge.
\<close>

lemma sendMessage_create_rejected:
  "getActiveTab s = Some i \<Longrightarrow> \<not> truthy (conversationId (tabs s ! i)) \<Longrightarrow>
   sendMessage marked CreateRejected sr s = (s, None)"
  by (simp add: sendMessage_def sendMessage_resume_def Let_def)

text \<open>
  Claim C8, evaluated on a send from the terminal. A \<open>cli\<close> tab with no conversation gets
  the line \<open>hi\<close> in its terminal, and the bridge fails to create a conversation. No request
  is made and the tab keeps \<open>conversationId\<close> null and \<open>isLoading\<close> false, but the send
  has not left the state as it was: \<open>handleCLIMessage\<close> has echoed the line and recorded
  the user message before it called \<open>sendMessage\<close>, and both stay. (When the conversation
  is created, the same path records the user message twice, once in \<open>handleCLIMessage\<close>
  and once in \<open>sendMessage\<close>.)
\<close>

theorem cli_send_create_failure:
  "terminal (tabs cli_state ! 0) = Some [] \<and> conversationId (tabs cli_state ! 0) = JNull \<and>
   messages (tabs cli_state ! 0) = [] \<and> elements cli_state 0 = None \<and>
   snd (handleCLIMessage (\<lambda>t. t) CreateRejected SendResolved 0 ''hi'' cli_state) = None \<and>
   conversationId
     (tabs (fst (handleCLIMessage (\<lambda>t. t) CreateRejected SendResolved 0 ''hi'' cli_state)) ! 0)
     = JNull \<and>
   isLoading
     (tabs (fst (handleCLIMessage (\<lambda>t. t) CreateRejected SendResolved 0 ''hi'' cli_state)) ! 0)
     = False \<and>
   messages
     (tabs (fst (handleCLIMessage (\<lambda>t. t) CreateRejected SendResolved 0 ''hi'' cli_state)) ! 0)
     = [0] \<and>
   elements (fst (handleCLIMessage (\<lambda>t. t) CreateRejected SendResolved 0 ''hi'' cli_state)) 0
     = Some \<lparr>el_role = User, innerHTML = ''hi''\<rparr> \<and>
   terminal
     (tabs (fst (handleCLIMessage (\<lambda>t. t) CreateRejected SendResolved 0 ''hi'' cli_state)) ! 0)
     = Some [Writeln (you_prefix @ ''hi'')] \<and>
   map (elements
          (fst (handleCLIMessage (\<lambda>t. t) (Created ''c1'' ''p1'') SendResolved 0 ''hi'' cli_state)))
     (messages
        (tabs (fst (handleCLIMessage (\<lambda>t. t) (Created ''c1'' ''p1'') SendResolved 0 ''hi''
                      cli_state)) ! 0))
     = [Some \<lparr>el_role = User, innerHTML = ''hi''\<rparr>, Some \<lparr>el_role = User, innerHTML = ''hi''\<rparr>,
        Some \<lparr>el_role = Assistant, innerHTML = []\<rparr>]"
  by (simp add: cli_state_def example_state_def example_tab_def handleCLIMessage_def
        sendMessage_def sendMessage_resume_def getActiveTab_def trim_def is_ws_def addMessage_def
        update_tab_def terminal_write_def escapeHtml_def Let_def)

subsection \<open>The attachments of a send\<close>

text \<open>
  Claim C9. A send goes on after \<open>createConversation\<close> (or at once, when the tab has a
  conversation), and the conversation was not refused. Then the request passed to the
  bridge carries one attachment for each attachment that is pending on the tab at that
  moment, in the same order and with the same \<open>document_id\<close>, \<open>file_name\<close>, \<open>file_size\<close>,
  \<open>file_type\<close>, \<open>file_url\<close> and \<open>extracted_content\<close> (the local \<open>id\<close> of an attachment is
  not sent), and the pending list of the tab is empty afterwards.
\<close>

theorem sendMessage_flush:
  "i < length (tabs s) \<and> created \<noteq> Some CreateRejected \<longrightarrow>
     (\<exists>req. snd (sendMessage_resume marked created sr i message s) = Some req \<and>
        map document_id (req_attachments req) = map document_id (pendingAttachments (tabs s ! i)) \<and>
        map file_name (req_attachments req) = map file_name (pendingAttachments (tabs s ! i)) \<and>
        map file_size (req_attachments req) = map file_size (pendingAttachments (tabs s ! i)) \<and>
        map file_type (req_attachments req) = map file_type (pendingAttachments (tabs s ! i)) \<and>
        map file_url (req_attachments req) = map file_url (pendingAttachments (tabs s ! i)) \<and>
        map extracted_content (req_attachments req)
          = map extracted_content (pendingAttachments (tabs s ! i))) \<and>
     pendingAttachments (tabs (fst (sendMessage_resume marked created sr i message s)) ! i) = []"
proof (intro impI)
  assume h: "i < length (tabs s) \<and> created \<noteq> Some CreateRejected"
  define s1 where "s1 = (case created of
       Some (Created c p) \<Rightarrow>
         update_tab i (\<lambda>t. t\<lparr>conversationId := JStr c, parentMessageUuid := JStr p\<rparr>) s
     | _ \<Rightarrow> s)"
  have len: "length (tabs s1) = length (tabs s)"
    by (simp add: s1_def length_tabs_update_tab split: option.splits create_result.splits)
  have pend: "pendingAttachments (tabs s1 ! i) = pendingAttachments (tabs s ! i)"
    by (simp add: s1_def nth_update_tab split: option.splits create_result.splits)
  have p: "map f (map attachment_payload xs) = map g xs"
    if "\<And>a. f (attachment_payload a) = g a" for f :: "AttachmentPayload \<Rightarrow> 'b" and g xs
    using that by simp
  from h have r: "sendMessage_resume marked created sr i message s
      = (let s2 = fst (addMessage marked User message False s1);
             s3 = s2\<lparr>input_value := []\<rparr>;
             attachments = map attachment_payload (pendingAttachments (tabs s3 ! i));
             s4 = update_tab i (\<lambda>t. t\<lparr>pendingAttachments := []\<rparr>) s3;
             (s5, assistantMsg) = addMessage marked Assistant [] True s4;
             s6 = update_tab i
                    (\<lambda>t. t\<lparr>streamingElement := Some assistantMsg, isLoading := True\<rparr>) s5;
             tab = tabs s6 ! i;
             req = \<lparr>req_conversationId = conversationId tab,
                    req_message = message,
                    req_parentUuid =
                      (if truthy (parentMessageUuid tab) then parentMessageUuid tab
                       else conversationId tab),
                    req_attachments = attachments\<rparr>
         in (case sr of
               SendResolved \<Rightarrow> (s6, Some req)
             | SendRejected e \<Rightarrow>
                 let s7 = (case streamingElement (tabs s6 ! i) of
                             None \<Rightarrow> s6
                           | Some a \<Rightarrow> set_innerHTML a (error_marker e) s6);
                     s8 = update_tab i (\<lambda>t. t\<lparr>isLoading := False\<rparr>) s7
                 in (s8, Some req)))"
    by (simp add: sendMessage_resume_def s1_def split: option.splits create_result.splits)
  from h len pend
  show "(\<exists>req. snd (sendMessage_resume marked created sr i message s) = Some req \<and>
        map document_id (req_attachments req) = map document_id (pendingAttachments (tabs s ! i)) \<and>
        map file_name (req_attachments req) = map file_name (pendingAttachments (tabs s ! i)) \<and>
        map file_size (req_attachments req) = map file_size (pendingAttachments (tabs s ! i)) \<and>
        map file_type (req_attachments req) = map file_type (pendingAttachments (tabs s ! i)) \<and>
        map file_url (req_attachments req) = map file_url (pendingAttachments (tabs s ! i)) \<and>
        map extracted_content (req_attachments req)
          = map extracted_content (pendingAttachments (tabs s ! i))) \<and>
     pendingAttachments (tabs (fst (sendMessage_resume marked created sr i message s)) ! i) = []"
    unfolding r
    by (auto simp: Let_def case_prod_beta nth_update_tab length_tabs_update_tab
          length_tabs_addMessage pending_addMessage tabs_set_innerHTML attachment_payload_def
          comp_def
          split: send_result.splits option.splits)
qed

theorem sendMessage_flush_witness:
  "0 < length (tabs attaching_state) \<and>
   pendingAttachments (tabs attaching_state ! 0) = [example_attachment, second_attachment] \<and>
   map_option (\<lambda>req. map document_id (req_attachments req))
     (snd (sendMessage_resume (\<lambda>t. t) (Some (Created ''c1'' ''p1'')) SendResolved 0 ''hi''
             attaching_state))
     = Some [''doc-1'', ''doc-2''] \<and>
   map_option (\<lambda>req. map file_url (req_attachments req))
     (snd (sendMessage_resume (\<lambda>t. t) (Some (Created ''c1'' ''p1'')) SendResolved 0 ''hi''
             attaching_state))
     = Some [None, Some ''blob:2''] \<and>
   pendingAttachments
     (tabs (fst (sendMessage_resume (\<lambda>t. t) (Some (Created ''c1'' ''p1'')) SendResolved 0 ''hi''
                   attaching_state)) ! 0) = []"
proof -
  have h: "0 < length (tabs attaching_state)"
    "pendingAttachments (tabs attaching_state ! 0) = [example_attachment, second_attachment]"
    by (simp_all add: attaching_state_def example_state_def)
  have a: "document_id example_attachment = ''doc-1''" "document_id second_attachment = ''doc-2''"
    "file_url example_attachment = None" "file_url second_attachment = Some ''blob:2''"
    by (simp_all add: example_attachment_def second_attachment_def)
  show ?thesis
    using sendMessage_flush [of 0 attaching_state "Some (Created ''c1'' ''p1'')" "\<lambda>t. t"
        SendResolved "''hi''"] h
    by (auto simp: a)
qed

subsection \<open>Stream events\<close>

text \<open>
  Claim C10. A stream event that matches no tab, or whose tab (the first tab with the
  conversation id of the event, as the handler looks it up) has no streaming element,
  leaves the whole state unchanged: every field of every tab, the message elements and the
  terminals.
\<close>

theorem onMessageStream_dropped:
  "(\<forall>t \<in> set (tabs s). \<not> strict_eq (conversationId t) (JStr (sd_conversationId data))) \<or>
   (\<exists>i. find_index (\<lambda>t. strict_eq (conversationId t) (JStr (sd_conversationId data))) (tabs s)
          = Some i \<and> streamingElement (tabs s ! i) = None)
   \<longrightarrow> onMessageStream marked data s = s"
  by (auto simp: onMessageStream_def find_index_None split: option.splits)

theorem onMessageStream_dropped_witness:
  "list_all (\<lambda>t. \<not> strict_eq (conversationId t) (JStr ''c1''))
     (tabs (example_state [example_tab ''a''] (JStr ''a''))) \<and>
   onMessageStream (\<lambda>t. t) \<lparr>sd_conversationId = ''c1'', sd_fullText = ''late''\<rparr>
     (example_state [example_tab ''a''] (JStr ''a'')) = example_state [example_tab ''a''] (JStr ''a'') \<and>
   find_index (\<lambda>t. strict_eq (conversationId t) (JStr ''c1''))
     (tabs (example_state [(example_tab ''a'')\<lparr>conversationId := JStr ''c1''\<rparr>] (JStr ''a''))) = Some 0 \<and>
   streamingElement
     (tabs (example_state [(example_tab ''a'')\<lparr>conversationId := JStr ''c1''\<rparr>] (JStr ''a'')) ! 0) = None \<and>
   onMessageStream (\<lambda>t. t) \<lparr>sd_conversationId = ''c1'', sd_fullText = ''late''\<rparr>
     (example_state [(example_tab ''a'')\<lparr>conversationId := JStr ''c1''\<rparr>] (JStr ''a''))
     = example_state [(example_tab ''a'')\<lparr>conversationId := JStr ''c1''\<rparr>] (JStr ''a'')"
  using onMessageStream_dropped
    [of "example_state [example_tab ''a''] (JStr ''a'')"
        "\<lparr>sd_conversationId = ''c1'', sd_fullText = ''late''\<rparr>" "\<lambda>t. t"]
    onMessageStream_dropped
    [of "example_state [(example_tab ''a'')\<lparr>conversationId := JStr ''c1''\<rparr>] (JStr ''a'')"
        "\<lparr>sd_conversationId = ''c1'', sd_fullText = ''late''\<rparr>" "\<lambda>t. t"]
  by (simp add: example_state_def example_tab_def)

lemma conversationId_onMessageStream:
  "map conversationId (tabs (onMessageStream marked d s)) = map conversationId (tabs s)"
  by (simp add: onMessageStream_def Let_def tabs_set_innerHTML update_tab_def terminal_write_def
        map_update_same split: option.splits)

lemma streamingElement_onMessageStream:
  "map streamingElement (tabs (onMessageStream marked d s)) = map streamingElement (tabs s)"
  by (simp add: onMessageStream_def Let_def tabs_set_innerHTML update_tab_def terminal_write_def
        map_update_same split: option.splits)

lemma length_tabs_onMessageStream:
  "length (tabs (onMessageStream marked d s)) = length (tabs s)"
  using arg_cong [OF conversationId_onMessageStream, of length] by simp

lemma onMessageStream_step:
  assumes "find_index (\<lambda>t. strict_eq (conversationId t) (JStr c)) (tabs s) = Some i"
    and "streamingElement (tabs s ! i) = Some a"
    and "elements s a = Some el"
    and "sd_conversationId d = c"
  shows "find_index (\<lambda>t. strict_eq (conversationId t) (JStr c))
           (tabs (onMessageStream marked d s)) = Some i"
    and "streamingElement (tabs (onMessageStream marked d s) ! i) = Some a"
    and "elements (onMessageStream marked d s) a
           = Some (el\<lparr>innerHTML := parseMarkdown marked (sd_fullText d)\<rparr>)"
proof -
  show "find_index (\<lambda>t. strict_eq (conversationId t) (JStr c))
           (tabs (onMessageStream marked d s)) = Some i"
    using find_index_cong_map [OF conversationId_onMessageStream,
        of "\<lambda>v. strict_eq v (JStr c)" marked d s] assms(1)
    by simp
  have i: "i < length (tabs s)" using assms(1) by (rule find_index_Some_less)
  have "map streamingElement (tabs (onMessageStream marked d s)) ! i
          = map streamingElement (tabs s) ! i"
    by (simp only: streamingElement_onMessageStream)
  with i show "streamingElement (tabs (onMessageStream marked d s) ! i) = Some a"
    using assms(2) by (simp add: length_tabs_onMessageStream)
  show "elements (onMessageStream marked d s) a
           = Some (el\<lparr>innerHTML := parseMarkdown marked (sd_fullText d)\<rparr>)"
    using assms
    by (simp add: onMessageStream_def Let_def elements_update_tab set_innerHTML_def)
qed

lemma deliver_stream_last:
  "find_index (\<lambda>t. strict_eq (conversationId t) (JStr c)) (tabs s) = Some i \<Longrightarrow>
   streamingElement (tabs s ! i) = Some a \<Longrightarrow> elements s a = Some el \<Longrightarrow>
   evs \<noteq> [] \<Longrightarrow> \<forall>d \<in> set evs. sd_conversationId d = c \<Longrightarrow>
   elements (deliver_stream marked evs s) a
     = Some (el\<lparr>innerHTML := parseMarkdown marked (sd_fullText (last evs))\<rparr>)"
proof (induction evs arbitrary: s el)
  case Nil
  then show ?case by simp
next
  case (Cons d ds)
  have c: "sd_conversationId d = c" using Cons.prems(5) by simp
  note st = onMessageStream_step [OF Cons.prems(1) Cons.prems(2) Cons.prems(3) c, of marked]
  show ?case
  proof (cases "ds = []")
    case True
    with st(3) show ?thesis by simp
  next
    case False
    have "elements (deliver_stream marked ds (onMessageStream marked d s)) a
            = Some (el\<lparr>innerHTML := parseMarkdown marked (sd_fullText d)\<rparr>
                      \<lparr>innerHTML := parseMarkdown marked (sd_fullText (last ds))\<rparr>)"
      using Cons.IH [OF st(1) st(2) st(3) False] Cons.prems(5) by simp
    with False show ?thesis by simp
  qed
qed

text \<open>
  Claim C6. While a tab is streaming (the handler finds it by the conversation id, and its
  streaming element is a message element of the page), a stream event sets the content of
  the placeholder to the rendering of the full text of the event, whatever the content was
  before; and after any sequence of stream events for the conversation, handled in the
  order of receipt, the content is the rendering of the text of the last event. For the
  texts \<open>H\<close>, \<open>He\<close>, \<open>Hel\<close> it is the rendering of \<open>Hel\<close>.
\<close>

theorem stream_last_write_wins:
  "find_index (\<lambda>t. strict_eq (conversationId t) (JStr c)) (tabs s) = Some i \<and>
   streamingElement (tabs s ! i) = Some a \<and> elements s a = Some el \<and>
   sd_conversationId d = c \<and> (\<forall>e \<in> set evs. sd_conversationId e = c)
   \<longrightarrow> map_option innerHTML (elements (onMessageStream marked d s) a)
         = Some (parseMarkdown marked (sd_fullText d)) \<and>
       map_option innerHTML (elements (deliver_stream marked (evs @ [d]) s) a)
         = Some (parseMarkdown marked (sd_fullText d))"
proof (intro impI conjI)
  assume h: "find_index (\<lambda>t. strict_eq (conversationId t) (JStr c)) (tabs s) = Some i \<and>
   streamingElement (tabs s ! i) = Some a \<and> elements s a = Some el \<and>
   sd_conversationId d = c \<and> (\<forall>e \<in> set evs. sd_conversationId e = c)"
  then show "map_option innerHTML (elements (onMessageStream marked d s) a)
         = Some (parseMarkdown marked (sd_fullText d))"
    using onMessageStream_step(3) [of c s i a el d marked] by simp
  from h have "\<forall>e \<in> set (evs @ [d]). sd_conversationId e = c" by simp
  with h show "map_option innerHTML (elements (deliver_stream marked (evs @ [d]) s) a)
         = Some (parseMarkdown marked (sd_fullText d))"
    using deliver_stream_last [of c s i a el "evs @ [d]" marked] by simp
qed

theorem stream_last_write_wins_witness:
  "find_index (\<lambda>t. strict_eq (conversationId t) (JStr ''c1'')) (tabs streaming_state) = Some 0 \<and>
   streamingElement (tabs streaming_state ! 0) = Some 1 \<and>
   elements streaming_state 1 = Some \<lparr>el_role = Assistant, innerHTML = []\<rparr> \<and>
   map_option innerHTML
     (elements (deliver_stream (\<lambda>t. ''<p>'' @ t @ ''</p>'')
        [\<lparr>sd_conversationId = ''c1'', sd_fullText = ''H''\<rparr>,
         \<lparr>sd_conversationId = ''c1'', sd_fullText = ''He''\<rparr>,
         \<lparr>sd_conversationId = ''c1'', sd_fullText = ''Hel''\<rparr>] streaming_state) 1)
     = Some ''<p>Hel</p>''"
  using stream_last_write_wins
    [of "''c1''" streaming_state 0 1 "\<lparr>el_role = Assistant, innerHTML = []\<rparr>"
        "\<lparr>sd_conversationId = ''c1'', sd_fullText = ''Hel''\<rparr>"
        "[\<lparr>sd_conversationId = ''c1'', sd_fullText = ''H''\<rparr>,
          \<lparr>sd_conversationId = ''c1'', sd_fullText = ''He''\<rparr>]"
        "\<lambda>t. ''<p>'' @ t @ ''</p>''"]
  by (simp add: streaming_state_def example_state_def example_tab_def parseMarkdown_def)

subsection \<open>A send that the bridge rejects\<close>

text \<open>
  Claim C2, evaluated on the error path. A tab with a conversation sends \<open>hi\<close> and the
  bridge rejects the call with \<open>boom\<close>: the placeholder shows the error marker and
  \<open>isLoading\<close> is false again, but \<open>streamingElement\<close> still refers to the placeholder.
  The \<open>catch\<close> of \<open>sendMessage\<close> does not clear it, as \<open>onMessageComplete\<close> does.
\<close>

theorem send_error_keeps_streamingElement:
  "isLoading (tabs (fst (sendMessage (\<lambda>t. t) CreateRejected (SendRejected ''boom'') ready_state)) ! 0)
     = False \<and>
   streamingElement
     (tabs (fst (sendMessage (\<lambda>t. t) CreateRejected (SendRejected ''boom'') ready_state)) ! 0)
     = Some 1 \<and>
   map_option innerHTML
     (elements (fst (sendMessage (\<lambda>t. t) CreateRejected (SendRejected ''boom'') ready_state)) 1)
     = Some (error_marker ''boom'')"
  by (simp add: ready_state_def example_state_def example_tab_def sendMessage_def
        sendMessage_resume_def getActiveTab_def
        trim_def is_ws_def addMessage_def update_tab_def set_innerHTML_def Let_def)

subsection \<open>The limit on the number of tabs\<close>

lemma printable_falsy: "\<not> truthy v \<Longrightarrow> printable v"
  by (cases v) (simp_all add: printable_def)

lemma printable_string: "is_string v \<Longrightarrow> printable v"
  by (cases v) (simp_all add: printable_def)

lemma printable_simps: "printable (JStr x)" "printable JNull" "printable JUndefined"
  by (simp_all add: printable_def)

lemma printable_name: "tab_renders t \<Longrightarrow> printable (name t)"
  by (cases "truthy (name t)") (simp_all add: tab_renders_def printable_falsy printable_string)

lemma tab_presentable_erase: "tab_presentable (erase_terminal t) = tab_presentable t"
  by (simp add: tab_presentable_def tab_renders_def erase_terminal_def)

lemma presentable_cong:
  assumes "map erase_terminal ts' = map erase_terminal ts"
  shows "list_all tab_presentable ts' = list_all tab_presentable ts"
proof -
  have "list_all tab_presentable (map erase_terminal xs) = list_all tab_presentable xs" for xs
    by (induction xs) (simp_all add: tab_presentable_erase)
  from this [of ts'] this [of ts] assms show ?thesis by simp
qed

lemma flow_inv_cong:
  assumes "map erase_terminal (tabs s') = map erase_terminal (tabs s)"
    and "accountModalVisible s' = accountModalVisible s"
    and "selectedAccountForNewTab s' = selectedAccountForNewTab s"
  shows "flow_inv s' = flow_inv s"
proof -
  have "length (tabs s') = length (tabs s)"
    using assms(1) by (rule map_eq_imp_length_eq)
  with assms presentable_cong [OF assms(1)] show ?thesis by (simp add: flow_inv_def)
qed

lemma footprint_steps:
  "footprint (renderActiveTab s) = footprint s" "footprint (saveTabs s) = footprint s"
  by (simp_all add: footprint_def erase_terminal_renderActiveTab activeTabId_renderActiveTab
        dialog_renderActiveTab tabs_saveTabs activeTabId_saveTabs dialog_saveTabs)

lemma footprint_run_steps:
  assumes "set fs \<subseteq> {renderTabs, returns renderActiveTab, updateInputBadge, updateModelSelector,
                      updateModeToggle, saveTabs_step}"
  shows "footprint (state_of (run_steps fs s)) = footprint s"
proof (rule run_steps_keeps)
  fix f x
  assume "f \<in> set fs"
  with assms have "f \<in> {renderTabs, returns renderActiveTab, updateInputBadge,
                         updateModelSelector, updateModeToggle, saveTabs_step}" by blast
  then show "footprint (state_of (f x)) = footprint x"
    by (auto simp: state_of_draw footprint_steps)
qed

lemma flow_inv_footprint: "footprint s' = footprint s \<Longrightarrow> flow_inv s' = flow_inv s"
  by (rule flow_inv_cong) (simp_all add: footprint_def)

lemma footprint_switchTab:
  "map erase_terminal (tabs (switchTab tabId s)) = map erase_terminal (tabs s)"
  "accountModalVisible (switchTab tabId s) = accountModalVisible s"
  "selectedAccountForNewTab (switchTab tabId s) = selectedAccountForNewTab s"
proof -
  have "footprint (state_of (run_steps [renderTabs, returns renderActiveTab, updateInputBadge,
                     updateModelSelector, updateModeToggle, saveTabs_step] x)) = footprint x" for x
    by (rule footprint_run_steps) simp
  then have f: "fst (footprint (switchTab tabId s)) = fst (footprint s)"
    "snd (snd (footprint (switchTab tabId s))) = snd (snd (footprint s))"
    by (simp_all add: switchTab_def footprint_def split: option.splits del: run_steps.simps)
  from f(1) show "map erase_terminal (tabs (switchTab tabId s)) = map erase_terminal (tabs s)"
    by (simp add: footprint_def)
  from f(2) show "accountModalVisible (switchTab tabId s) = accountModalVisible s"
    "selectedAccountForNewTab (switchTab tabId s) = selectedAccountForNewTab s"
    by (simp_all add: footprint_def)
qed

lemma flow_inv_switchTab: "flow_inv s \<Longrightarrow> flow_inv (switchTab tabId s)"
  using flow_inv_cong [OF footprint_switchTab, of tabId s] by simp

lemma flow_inv_closeTab:
  assumes "flow_inv s"
  shows "flow_inv (closeTab tabId s)"
proof (cases "length (tabs s) \<noteq> 1 \<and>
    find_index (\<lambda>t. strict_eq (tab_id t) (JStr tabId)) (tabs s) \<noteq> None")
  case False
  with assms show ?thesis by (auto simp: closeTab_def)
next
  case True
  then obtain i where i: "find_index (\<lambda>t. strict_eq (tab_id t) (JStr tabId)) (tabs s) = Some i"
    by auto
  then have il: "i < length (tabs s)" by (rule find_index_Some_less)
  define s1 where "s1 = s\<lparr>tabs := splice1 i (tabs s)\<rparr>"
  define s2 where "s2 = (if strict_eq (activeTabId s1) (JStr tabId)
                          then s1\<lparr>activeTabId := tab_id (tabs s1 ! (i - 1))\<rparr> else s1)"
  have c: "closeTab tabId s = state_of (run_steps [renderTabs, returns renderActiveTab,
             updateInputBadge, updateModelSelector, saveTabs_step] s2)"
    using True i by (simp add: closeTab_def Let_def s1_def s2_def del: run_steps.simps)
  have "footprint (closeTab tabId s) = footprint s2"
    unfolding c by (rule footprint_run_steps) simp
  then have e: "flow_inv (closeTab tabId s) = flow_inv s2" by (rule flow_inv_footprint)
  have sub: "set (splice1 i (tabs s)) \<subseteq> set (tabs s)"
    by (auto simp: splice1_def dest: in_set_takeD in_set_dropD)
  have len: "length (splice1 i (tabs s)) < length (tabs s)"
    using il by (simp add: splice1_def)
  have "flow_inv s2"
    using assms sub len
    by (auto simp: flow_inv_def s2_def s1_def list_all_iff)
  with e show ?thesis by simp
qed

lemma createTab_adds:
  "length (tabs (state_of (createTab uuid account nameOpt ty s))) = Suc (length (tabs s))"
  "activeTabId (state_of (createTab uuid account nameOpt ty s)) = JStr uuid"
proof -
  have k: "length (tabs (state_of (run_steps [renderTabs, returns renderActiveTab, saveTabs_step,
             updateInputBadge, updateModelSelector, updateModeToggle] x))) = length (tabs x)"
    "activeTabId (state_of (run_steps [renderTabs, returns renderActiveTab, saveTabs_step,
             updateInputBadge, updateModelSelector, updateModeToggle] x)) = activeTabId x" for x
    using footprint_run_steps [of "[renderTabs, returns renderActiveTab, saveTabs_step,
             updateInputBadge, updateModelSelector, updateModeToggle]" x]
      map_eq_imp_length_eq [of erase_terminal "tabs (state_of (run_steps [renderTabs,
             returns renderActiveTab, saveTabs_step,
             updateInputBadge, updateModelSelector, updateModeToggle] x))" erase_terminal "tabs x"]
    by (simp_all add: footprint_def del: run_steps.simps)
  show "length (tabs (state_of (createTab uuid account nameOpt ty s))) = Suc (length (tabs s))"
    by (simp add: createTab_def Let_def k initializeTerminal_def update_tab_def
          del: run_steps.simps)
  show "activeTabId (state_of (createTab uuid account nameOpt ty s)) = JStr uuid"
    by (simp add: createTab_def Let_def k initializeTerminal_def update_tab_def
          del: run_steps.simps)
qed

text \<open>With tabs that the page can present, the steps of \<open>createTab\<close> do not throw.\<close>

lemma presentable_steps_return:
  assumes "list_all tab_presentable (tabs x)" and "printable (activeTabId x)"
  shows "\<exists>x'. run_steps [renderTabs, returns renderActiveTab, saveTabs_step, updateInputBadge,
                         updateModelSelector, updateModeToggle] x = Returned x' \<and>
              footprint x' = footprint x"
proof -
  have pres: "list_all tab_presentable (tabs y)" if "footprint y = footprint x" for y
    using that assms(1) presentable_cong [of "tabs y" "tabs x"] by (simp add: footprint_def)
  have act: "printable (name (tabs y ! j)) \<and> printable (model (tabs y ! j)) \<and>
             printable (tabType (tabs y ! j))"
    if "footprint y = footprint x" "getActiveTab y = Some j" for y j
  proof -
    from that(2) have "j < length (tabs y)"
      by (auto simp: getActiveTab_def dest: find_index_Some_less)
    with pres [OF that(1)] have "tab_presentable (tabs y ! j)"
      by (simp add: list_all_length)
    then show ?thesis by (simp add: tab_presentable_def printable_name)
  qed
  have r1: "renderTabs x = Returned x"
    using assms(1) by (simp add: renderTabs_def list_all_iff tab_presentable_def)
  define x2 where "x2 = renderActiveTab x"
  have f2: "footprint x2 = footprint x" by (simp add: x2_def footprint_steps)
  have r3: "saveTabs_step x2 = Returned (saveTabs x2)"
    using assms(2) by (simp add: saveTabs_step_def x2_def activeTabId_renderActiveTab)
  define x3 where "x3 = saveTabs x2"
  have f3: "footprint x3 = footprint x" by (simp add: x3_def footprint_steps f2)
  have r4: "updateInputBadge x3 = Returned x3" "updateModelSelector x3 = Returned x3"
    "updateModeToggle x3 = Returned x3"
    using act [OF f3]
    by (simp_all add: updateInputBadge_def updateModelSelector_def updateModeToggle_def
          split: option.splits)
  have "run_steps [renderTabs, returns renderActiveTab, saveTabs_step, updateInputBadge,
                   updateModelSelector, updateModeToggle] x = Returned x3"
    by (simp add: r1 returns_def x2_def [symmetric] r3 x3_def [symmetric] r4)
  with f3 show ?thesis by blast
qed

lemma createTab_returns:
  assumes "list_all tab_presentable (tabs s)"
  shows "\<exists>s'. createTab uuid account nameOpt ty s = Returned s' \<and>
              length (tabs s') = Suc (length (tabs s)) \<and> list_all tab_presentable (tabs s') \<and>
              accountModalVisible s' = accountModalVisible s \<and>
              selectedAccountForNewTab s' = selectedAccountForNewTab s"
proof -
  define tyv where "tyv = (case ty of None \<Rightarrow> ''gui'' | Some t \<Rightarrow> t)"
  define tabName where "tabName =
            (case nameOpt of
               Some n \<Rightarrow>
                 if n \<noteq> [] then n
                 else if tyv = ''cli'' then ''CLI '' @ show_nat (length (tabs s) + 1)
                 else ''Chat '' @ show_nat (length (tabs s) + 1)
             | None \<Rightarrow>
                 if tyv = ''cli'' then ''CLI '' @ show_nat (length (tabs s) + 1)
                 else ''Chat '' @ show_nat (length (tabs s) + 1))"
  define tab where "tab = \<lparr>tab_id = JStr uuid, name = JStr tabName, accountId = JStr account,
                 conversationId = JNull, parentMessageUuid = JNull,
                 model = JStr ''claude-opus-4-5-20251101'', messages = [], isLoading = False,
                 streamingElement = None, pendingAttachments = [], tabType = JStr tyv,
                 terminal = None\<rparr>"
  define s1 where "s1 = s\<lparr>tabs := tabs s @ [tab], activeTabId := JStr uuid\<rparr>"
  define s2 where "s2 = (if tyv = ''cli'' then initializeTerminal (length (tabs s)) s1 else s1)"
  have c: "createTab uuid account nameOpt ty s
             = run_steps [renderTabs, returns renderActiveTab, saveTabs_step, updateInputBadge,
                          updateModelSelector, updateModeToggle] s2"
    by (simp add: createTab_def Let_def tyv_def tabName_def tab_def s1_def s2_def
          del: run_steps.simps)
  have pt: "tab_presentable tab"
    by (simp add: tab_presentable_def tab_renders_def tab_def printable_def)
  have p1: "list_all tab_presentable (tabs s1)"
    using assms pt by (simp add: s1_def)
  have e2: "map erase_terminal (tabs s2) = map erase_terminal (tabs s1)"
    by (simp add: s2_def initializeTerminal_def map_tabs_update_tab erase_terminal_def)
  have p2: "list_all tab_presentable (tabs s2)"
    using presentable_cong [OF e2] p1 by simp
  have a2: "printable (activeTabId s2)"
    by (simp add: s2_def s1_def initializeTerminal_def update_tab_def printable_def)
  from presentable_steps_return [OF p2 a2] obtain s' where
    s': "createTab uuid account nameOpt ty s = Returned s'" "footprint s' = footprint s2"
    unfolding c by blast
  have e: "map erase_terminal (tabs s') = map erase_terminal (tabs s1)"
    using s'(2) e2 by (simp add: footprint_def)
  have "length (tabs s') = length (tabs s1)" using e by (rule map_eq_imp_length_eq)
  moreover have "list_all tab_presentable (tabs s')" using presentable_cong [OF e] p1 by simp
  moreover have "accountModalVisible s' = accountModalVisible s"
    "selectedAccountForNewTab s' = selectedAccountForNewTab s"
    using s'(2) by (simp_all add: footprint_def s2_def s1_def initializeTerminal_def update_tab_def)
  ultimately show ?thesis using s'(1) by (simp add: s1_def)
qed

lemma flow_inv_fire:
  assumes "flow_inv s" and "fire e s = Some s1"
    and "case e of AccountOptionClick account \<Rightarrow> accountModalVisible s | _ \<Rightarrow> True"
  shows "flow_inv s1"
proof (cases e)
  case (TabClick tabId)
  with assms show ?thesis by (auto simp: flow_inv_switchTab)
next
  case (TabCloseClick tabId)
  with assms show ?thesis by (auto simp: flow_inv_closeTab)
next
  case NewTabClick
  with assms show ?thesis
    by (auto simp: flow_inv_def newTabBtn_click_def showAccountSelectModal_def canCreateNewTab_def)
next
  case (TabTypeClick ty)
  with assms show ?thesis by (auto simp: flow_inv_def)
next
  case (AccountOptionClick account)
  with assms show ?thesis by (auto simp: flow_inv_def account_option_click_def)
next
  case CancelNewTabClick
  with assms show ?thesis by (auto simp: flow_inv_def hideAccountSelectModal_def)
next
  case (AddAccountForTabClick uuid lr)
  show ?thesis
  proof (cases "\<exists>account. selectedAccountForNewTab s = Some account \<and> account \<noteq> []")
    case True
    then obtain account where a: "selectedAccountForNewTab s = Some account" "account \<noteq> []"
      by blast
    with assms(1) have lt: "length (tabs s) < MAX_TABS" and p: "list_all tab_presentable (tabs s)"
      by (simp_all add: flow_inv_def split: if_splits)
    from createTab_returns [OF p, of uuid account None "selectedTabType s"] obtain s' where
      s': "createTab uuid account None (selectedTabType s) s = Returned s'"
      "length (tabs s') = Suc (length (tabs s))" "list_all tab_presentable (tabs s')"
      by blast
    from a s'(1) assms(2) AddAccountForTabClick have "s1 = hideAccountSelectModal s'"
      by (simp add: addAccountForTab_click_def)
    with s' lt show ?thesis
      by (simp add: flow_inv_def hideAccountSelectModal_def)
  next
    case False
    with assms(2) AddAccountForTabClick have "s1 = s"
      by (auto simp: addAccountForTab_click_def login_and_reload_def
            split: option.splits login_result.splits bool.splits if_splits)
    with assms(1) show ?thesis by simp
  qed
qed

lemma flow_inv_run_events:
  "flow_inv s \<Longrightarrow> account_clicks_while_shown es s \<Longrightarrow> flow_inv (run_events es s)"
proof (induction es arbitrary: s)
  case Nil
  then show ?case by simp
next
  case (Cons e es)
  show ?case
  proof (cases "fire e s")
    case None
    with Cons.prems show ?thesis by simp
  next
    case (Some s1)
    from Cons.prems(2) have c: "case e of AccountOptionClick account \<Rightarrow> accountModalVisible s | _ \<Rightarrow> True"
      by simp
    have "flow_inv s1" using Cons.prems(1) Some c by (rule flow_inv_fire)
    moreover have "account_clicks_while_shown es s1" using Cons.prems(2) Some by simp
    ultimately show ?thesis using Some Cons.IH by simp
  qed
qed

text \<open>
  \<open>createTab\<close> with three tabs open: it adds a fourth tab and makes it the active one. And
  with three tabs open and the dialog closed, the handler of an account of the list
  followed by the one of the confirm button adds a fourth tab too.
\<close>

theorem createTab_at_capacity_counterexample:
  "length (tabs full_state) = MAX_TABS \<and> \<not> canCreateNewTab full_state \<and>
   length (tabs (state_of (createTab ''d'' ''acc'' None None full_state))) = 4 \<and>
   activeTabId full_state = JStr ''a'' \<and>
   activeTabId (state_of (createTab ''d'' ''acc'' None None full_state)) = JStr ''d'' \<and>
   \<not> accountModalVisible full_state \<and>
   length (tabs (run_events [AccountOptionClick ''acc'', AddAccountForTabClick ''d'' LoginRejected]
                   full_state)) = 4"
proof -
  have "length (tabs (state_of (createTab ''d'' ''acc'' None None full_state))) = 4"
    by (simp add: createTab_adds full_state_def example_state_def)
  moreover have "activeTabId (state_of (createTab ''d'' ''acc'' None None full_state)) = JStr ''d''"
    by (rule createTab_adds)
  moreover have "length (tabs full_state) = MAX_TABS" "activeTabId full_state = JStr ''a''"
    "\<not> canCreateNewTab full_state" "\<not> accountModalVisible full_state"
    by (simp_all add: full_state_def example_state_def MAX_TABS_def canCreateNewTab_def)
  moreover have "length (tabs (run_events
      [AccountOptionClick ''acc'', AddAccountForTabClick ''d'' LoginRejected] full_state)) = 4"
  proof -
    have "length (tabs (case createTab ''d'' ''acc'' None (selectedTabType full_state)
                               (full_state\<lparr>selectedAccountForNewTab := Some ''acc''\<rparr>) of
                          Returned s1 \<Rightarrow> hideAccountSelectModal s1 | Threw e s1 \<Rightarrow> s1))
            = length (tabs (state_of (createTab ''d'' ''acc'' None (selectedTabType full_state)
                               (full_state\<lparr>selectedAccountForNewTab := Some ''acc''\<rparr>))))"
      by (cases "createTab ''d'' ''acc'' None (selectedTabType full_state)
                               (full_state\<lparr>selectedAccountForNewTab := Some ''acc''\<rparr>)")
         (simp_all add: hideAccountSelectModal_def)
    then show ?thesis
      by (simp add: account_option_click_def addAccountForTab_click_def createTab_adds)
         (simp add: full_state_def example_state_def)
  qed
  ultimately show ?thesis by blast
qed

text \<open>
  Claim C1, amended. \<open>createTab\<close> has no check of the capacity: it always adds one tab and
  makes it active. The limit is kept by the new-tab button: its click handler changes
  nothing when \<open>MAX_TABS\<close> (3) tabs or more are open. And from a page with at most 3 tabs,
  the dialog closed, no account selected and only tabs that the page can present, the
  number of tabs never exceeds 3 along a sequence of events of the new-tab flow (new-tab
  click, choice of the tab type, click on an account, cancel, confirm), mixed with
  switching and closing tabs, in which an account is clicked only while the dialog is
  shown.
\<close>

theorem create_flow_capacity:
  "length (tabs (state_of (createTab uuid account nameOpt ty s))) = length (tabs s) + 1 \<and>
   activeTabId (state_of (createTab uuid account nameOpt ty s)) = JStr uuid \<and>
   (\<not> canCreateNewTab s \<longrightarrow> newTabBtn_click s = s) \<and>
   (length (tabs s) \<le> MAX_TABS \<and> \<not> accountModalVisible s \<and> selectedAccountForNewTab s = None \<and>
    list_all tab_presentable (tabs s) \<and> account_clicks_while_shown es s \<longrightarrow>
      length (tabs (run_events es s)) \<le> MAX_TABS)"
proof (intro conjI impI)
  show "length (tabs (state_of (createTab uuid account nameOpt ty s))) = length (tabs s) + 1"
    by (simp add: createTab_adds)
  show "activeTabId (state_of (createTab uuid account nameOpt ty s)) = JStr uuid"
    by (rule createTab_adds)
  show "newTabBtn_click s = s" if "\<not> canCreateNewTab s"
    using that by (simp add: newTabBtn_click_def)
  show "length (tabs (run_events es s)) \<le> MAX_TABS"
    if h: "length (tabs s) \<le> MAX_TABS \<and> \<not> accountModalVisible s \<and>
           selectedAccountForNewTab s = None \<and> list_all tab_presentable (tabs s) \<and>
           account_clicks_while_shown es s"
  proof -
    from h have "flow_inv s" by (simp add: flow_inv_def)
    moreover from h have "account_clicks_while_shown es s" by simp
    ultimately have "flow_inv (run_events es s)" by (rule flow_inv_run_events)
    then show ?thesis by (simp add: flow_inv_def)
  qed
qed

lemma no_account_clicks:
  "list_all (\<lambda>e. case e of AccountOptionClick account \<Rightarrow> False | _ \<Rightarrow> True) es \<Longrightarrow>
   account_clicks_while_shown es s"
proof (induction es arbitrary: s)
  case Nil
  then show ?case by simp
next
  case (Cons e es)
  then show ?case by (cases e) (auto split: option.splits)
qed

theorem create_flow_capacity_witness:
  "\<not> canCreateNewTab full_state \<and> newTabBtn_click full_state = full_state \<and>
   length (tabs (example_state [example_tab ''a'', example_tab ''b''] (JStr ''a''))) \<le> MAX_TABS \<and>
   \<not> accountModalVisible (example_state [example_tab ''a'', example_tab ''b''] (JStr ''a'')) \<and>
   selectedAccountForNewTab (example_state [example_tab ''a'', example_tab ''b''] (JStr ''a'')) = None \<and>
   list_all tab_presentable (tabs (example_state [example_tab ''a'', example_tab ''b''] (JStr ''a''))) \<and>
   account_clicks_while_shown
     [NewTabClick, AccountOptionClick ''acc'', AddAccountForTabClick ''c'' LoginRejected,
      NewTabClick, AddAccountForTabClick ''d'' LoginRejected]
     (example_state [example_tab ''a'', example_tab ''b''] (JStr ''a'')) \<and>
   length (tabs (run_events
     [NewTabClick, AccountOptionClick ''acc'', AddAccountForTabClick ''c'' LoginRejected,
      NewTabClick, AddAccountForTabClick ''d'' LoginRejected]
     (example_state [example_tab ''a'', example_tab ''b''] (JStr ''a'')))) \<le> MAX_TABS"
proof -
  let ?s = "example_state [example_tab ''a'', example_tab ''b''] (JStr ''a'')"
  let ?es = "[NewTabClick, AccountOptionClick ''acc'', AddAccountForTabClick ''c'' LoginRejected,
              NewTabClick, AddAccountForTabClick ''d'' LoginRejected]"
  have h: "length (tabs ?s) \<le> MAX_TABS" "\<not> accountModalVisible ?s"
    "selectedAccountForNewTab ?s = None" "list_all tab_presentable (tabs ?s)"
    by (simp_all add: example_state_def example_tab_def MAX_TABS_def tab_presentable_def
          tab_renders_def printable_def)
  have r: "account_clicks_while_shown
             [AddAccountForTabClick ''c'' LoginRejected, NewTabClick,
              AddAccountForTabClick ''d'' LoginRejected] x" for x
    by (rule no_account_clicks) simp
  have c: "account_clicks_while_shown ?es ?s"
    by (simp add: r newTabBtn_click_def canCreateNewTab_def MAX_TABS_def
          showAccountSelectModal_def account_option_click_def example_state_def
          del: account_clicks_while_shown.simps(2))
       (simp add: r newTabBtn_click_def canCreateNewTab_def MAX_TABS_def
          showAccountSelectModal_def account_option_click_def example_state_def
          account_clicks_while_shown.simps(2) [of NewTabClick]
          account_clicks_while_shown.simps(2) [of "AccountOptionClick ''acc''"]
          del: account_clicks_while_shown.simps(2))
  have f: "\<not> canCreateNewTab full_state"
    by (simp add: canCreateNewTab_def full_state_def example_state_def MAX_TABS_def)
  from h c f show ?thesis
    using create_flow_capacity [of "''d''" "''acc''" None None full_state "[]"]
      create_flow_capacity [of "''d''" "''acc''" None None ?s ?es]
    by blast
qed

subsection \<open>What loading a history keeps\<close>

lemma get_prop_ok: "m \<noteq> JUndefined \<Longrightarrow> m \<noteq> JNull \<Longrightarrow> get_prop m k = Inr (js_prop m k)"
  by (cases m) (auto split: option.splits)

lemma map_tabs_addMessage:
  "(\<And>t m. g (t\<lparr>messages := m\<rparr>) = g t) \<Longrightarrow>
   map g (tabs (fst (addMessage marked r c raw s))) = map g (tabs s)"
  by (simp add: addMessage_def Let_def map_tabs_update_tab split: option.splits)

lemma map_tabs_render_messages:
  assumes "\<And>t m. g (t\<lparr>messages := m\<rparr>) = g t"
  shows "map g (tabs (fst (render_messages marked ms s))) = map g (tabs s)"
  by (induction marked ms s rule: render_messages.induct)
     (auto simp: map_tabs_addMessage [of g, OF assms] split: sum.splits)

lemma activeTabId_render_messages:
  "activeTabId (fst (render_messages marked ms s)) = activeTabId s"
  by (induction marked ms s rule: render_messages.induct)
     (auto simp: activeTabId_addMessage split: sum.splits)

lemma updateTabName_keeps:
  assumes "\<And>x. g (saveTabs x) = g x"
  shows "g (state_of (updateTabName tid n s))
           = (case find_index (\<lambda>t. strict_eq (tab_id t) tid) (tabs s) of
                None \<Rightarrow> g s
              | Some i \<Rightarrow> g (update_tab i (\<lambda>t. t\<lparr>name := n\<rparr>) s))"
proof (cases "find_index (\<lambda>t. strict_eq (tab_id t) tid) (tabs s)")
  case None
  then show ?thesis by (simp add: updateTabName_def)
next
  case (Some i)
  have "g (state_of (run_steps
          [renderTabs,
           (\<lambda>s1. if strict_eq (activeTabId s1) tid then updateInputBadge s1 else Returned s1),
           saveTabs_step] x)) = g x" for x
    by (rule run_steps_keeps) (auto simp: state_of_draw assms)
  with Some show ?thesis by (simp add: updateTabName_def del: run_steps.simps)
qed

lemma map_tabs_updateTabName:
  assumes "\<And>t n. g (t\<lparr>name := n\<rparr>) = g t"
  shows "map g (tabs (state_of (updateTabName tid n s))) = map g (tabs s)"
  using updateTabName_keeps [of "\<lambda>x. map g (tabs x)" tid n s] assms
  by (simp add: tabs_saveTabs map_tabs_update_tab split: option.splits)

lemma activeTabId_updateTabName: "activeTabId (state_of (updateTabName tid n s)) = activeTabId s"
  using updateTabName_keeps [of activeTabId tid n s]
  by (simp add: activeTabId_saveTabs activeTabId_update_tab split: option.splits)


lemma map_tabs_finish_history:
  assumes "\<And>t n. g (t\<lparr>name := n\<rparr>) = g t" and "\<And>t u. g (t\<lparr>parentMessageUuid := u\<rparr>) = g t"
  shows "map g (tabs (finish_history i data sm s)) = map g (tabs s)"
  by (auto simp: finish_history_def map_tabs_updateTabName [of g, OF assms(1)]
        map_tabs_update_tab [of g, OF assms(2)]
        split: sum.splits jsval.splits outcome.splits)

lemma activeTabId_finish_history: "activeTabId (finish_history i data sm s) = activeTabId s"
  by (auto simp: finish_history_def activeTabId_updateTabName activeTabId_update_tab
        split: sum.splits jsval.splits outcome.splits)


lemma map_tabs_loadConversationHistory:
  assumes "\<And>t m. g (t\<lparr>messages := m\<rparr>) = g t" and "\<And>t n. g (t\<lparr>name := n\<rparr>) = g t"
    and "\<And>t u. g (t\<lparr>parentMessageUuid := u\<rparr>) = g t"
  shows "map g (tabs (state_of (loadConversationHistory marked parseDate load i s)))
           = map g (tabs s)"
proof -
  have "map g (tabs (case render_messages marked ms s of
                            (s1, False) \<Rightarrow> s1
                          | (s1, True) \<Rightarrow> finish_history i data ms s1)) = map g (tabs s)"
    for ms data
    using map_tabs_render_messages [of g marked ms s, OF assms(1)]
    by (cases "render_messages marked ms s")
       (auto simp: map_tabs_finish_history [of g, OF assms(2,3)] split: bool.splits)
  then show ?thesis
    by (simp add: loadConversationHistory_def split: load_result.splits jsval.splits sum.splits)
qed

lemma activeTabId_loadConversationHistory:
  "activeTabId (state_of (loadConversationHistory marked parseDate load i s)) = activeTabId s"
proof -
  have "activeTabId (case render_messages marked ms s of
                            (s1, False) \<Rightarrow> s1
                          | (s1, True) \<Rightarrow> finish_history i data ms s1) = activeTabId s"
    for ms data
    using activeTabId_render_messages [of marked ms s]
    by (cases "render_messages marked ms s")
       (auto simp: activeTabId_finish_history split: bool.splits)
  then show ?thesis
    by (simp add: loadConversationHistory_def split: load_result.splits jsval.splits sum.splits)
qed

lemma list_all_nth: "list_all P xs \<Longrightarrow> i < length xs \<Longrightarrow> P (xs ! i)"
  by (simp add: list_all_length)

lemma loadConversationHistory_returns:
  "printable (conversationId (tabs s ! i)) \<Longrightarrow>
   \<exists>s1. loadConversationHistory marked parseDate load i s = Returned s1"
  by (simp add: loadConversationHistory_def)

lemma load_histories_keeps:
  assumes "\<And>t m. g (t\<lparr>messages := m\<rparr>) = g t" and "\<And>t n. g (t\<lparr>name := n\<rparr>) = g t"
    and "\<And>t u. g (t\<lparr>parentMessageUuid := u\<rparr>) = g t"
  shows "map g (tabs (state_of (load_histories marked parseDate load is s))) = map g (tabs s)"
proof (induction "is" arbitrary: s)
  case Nil
  then show ?case by simp
next
  case (Cons i "is")
  note l = map_tabs_loadConversationHistory [of g marked parseDate load i s, OF assms]
  show ?case
  proof (cases "loadConversationHistory marked parseDate load i s")
    case (Returned s1)
    with l Cons.IH [of s1] Cons.IH [of s] show ?thesis by simp
  next
    case (Threw e s1)
    with l Cons.IH [of s] show ?thesis by simp
  qed
qed

lemma activeTabId_load_histories:
  "activeTabId (state_of (load_histories marked parseDate load is s)) = activeTabId s"
proof (induction "is" arbitrary: s)
  case Nil
  then show ?case by simp
next
  case (Cons i "is")
  note l = activeTabId_loadConversationHistory [of marked parseDate load i s]
  show ?case
  proof (cases "loadConversationHistory marked parseDate load i s")
    case (Returned s1)
    with l Cons.IH [of s1] Cons.IH [of s] show ?thesis by simp
  next
    case (Threw e s1)
    with l Cons.IH [of s] show ?thesis by simp
  qed
qed

lemma load_histories_returns:
  "list_all printable (map conversationId (tabs s)) \<Longrightarrow> list_all (\<lambda>i. i < length (tabs s)) is \<Longrightarrow>
   \<exists>s'. load_histories marked parseDate load is s = Returned s'"
proof (induction "is" arbitrary: s)
  case Nil
  then show ?case by simp
next
  case (Cons i "is")
  from Cons.prems(2) have il: "i < length (tabs s)" and rest: "list_all (\<lambda>i. i < length (tabs s)) is"
    by simp_all
  from list_all_nth [OF Cons.prems(1), of i] il
  have p: "printable (conversationId (tabs s ! i))" by simp
  from loadConversationHistory_returns [OF p] obtain s1 where
    r: "loadConversationHistory marked parseDate load i s = Returned s1" by blast
  have "map conversationId (tabs (state_of (loadConversationHistory marked parseDate load i s)))
          = map conversationId (tabs s)"
    by (rule map_tabs_loadConversationHistory) simp_all
  with r have c: "map conversationId (tabs s1) = map conversationId (tabs s)" by simp
  then have "length (tabs s1) = length (tabs s)" by (rule map_eq_imp_length_eq)
  with Cons.prems(1) rest c have "list_all printable (map conversationId (tabs s1))"
    "list_all (\<lambda>i. i < length (tabs s1)) is" by simp_all
  then obtain s' where 1: "load_histories marked parseDate load is s1 = Returned s'"
    using Cons.IH by blast
  from Cons.prems(1) rest obtain s'' where 2: "load_histories marked parseDate load is s = Returned s''"
    using Cons.IH by blast
  show ?case using r 1 2 by simp
qed

lemma load_histories_rejected:
  assumes "\<forall>c. load c = LoadRejected"
  shows "list_all printable (map conversationId (tabs s)) \<Longrightarrow>
         list_all (\<lambda>i. i < length (tabs s)) is \<Longrightarrow>
         load_histories marked parseDate load is s = Returned s"
proof (induction "is")
  case Nil
  then show ?case by simp
next
  case (Cons i "is")
  from Cons.prems(2) have il: "i < length (tabs s)" and rest: "list_all (\<lambda>i. i < length (tabs s)) is"
    by simp_all
  from list_all_nth [OF Cons.prems(1), of i] il
  have p: "printable (conversationId (tabs s ! i))" by simp
  have "loadConversationHistory marked parseDate load i s = Returned s"
    using p assms by (simp add: loadConversationHistory_def)
  moreover have "load_histories marked parseDate load is s = Returned s"
    using Cons.prems(1) rest by (rule Cons.IH)
  ultimately show ?case by simp
qed

text \<open>The steps of \<open>restoreTabs\<close> after the snapshot is read, with tabs that can be presented.\<close>

lemma restore_steps_return:
  assumes "list_all tab_presentable (tabs s1)"
  shows "\<exists>r. run_steps [renderTabs, returns renderActiveTab, updateInputBadge, updateModelSelector,
                        load_histories marked parseDate load [0..<length (tabs s1)],
                        returns renderActiveTab] s1 = Returned r \<and>
             r = renderActiveTab
                   (state_of (load_histories marked parseDate load [0..<length (tabs s1)]
                                (renderActiveTab s1)))"
proof -
  define x where "x = renderActiveTab s1"
  have e: "map erase_terminal (tabs x) = map erase_terminal (tabs s1)"
    by (simp add: x_def erase_terminal_renderActiveTab)
  then have len: "length (tabs x) = length (tabs s1)" by (rule map_eq_imp_length_eq)
  have px: "list_all tab_presentable (tabs x)"
    using presentable_cong [OF e] assms by simp
  have act: "printable (name (tabs x ! j)) \<and> printable (model (tabs x ! j))"
    if "getActiveTab x = Some j" for j
  proof -
    from that have "j < length (tabs x)"
      by (auto simp: getActiveTab_def dest: find_index_Some_less)
    with px have "tab_presentable (tabs x ! j)" by (simp add: list_all_length)
    then show ?thesis by (simp add: tab_presentable_def printable_name)
  qed
  have r1: "renderTabs s1 = Returned s1"
    using assms by (simp add: renderTabs_def list_all_iff tab_presentable_def)
  have r2: "updateInputBadge x = Returned x" "updateModelSelector x = Returned x"
    using act by (simp_all add: updateInputBadge_def updateModelSelector_def split: option.splits)
  have "list_all printable (map conversationId (tabs x))"
    using px by (simp add: list_all_iff tab_presentable_def)
  moreover have "list_all (\<lambda>i. i < length (tabs x)) [0..<length (tabs s1)]"
    by (simp add: len list_all_iff)
  ultimately obtain y where
    r3: "load_histories marked parseDate load [0..<length (tabs s1)] x = Returned y"
    using load_histories_returns by blast
  show ?thesis
    by (simp add: r1 returns_def x_def [symmetric] r2 r3)
qed

subsection \<open>Restoring the tabs\<close>

lemma createTab_fields:
  "map tab_id (tabs (state_of (createTab uuid account nameOpt ty s))) = map tab_id (tabs s) @ [JStr uuid]"
  "map accountId (tabs (state_of (createTab uuid account nameOpt ty s)))
     = map accountId (tabs s) @ [JStr account]"
  "n \<noteq> [] \<Longrightarrow>
   map name (tabs (state_of (createTab uuid account (Some n) ty s))) = map name (tabs s) @ [JStr n]"
proof -
  have k: "map g (tabs (state_of (run_steps [renderTabs, returns renderActiveTab, saveTabs_step,
             updateInputBadge, updateModelSelector, updateModeToggle] x))) = map g (tabs x)"
    if "\<And>t v. g (t\<lparr>terminal := v\<rparr>) = g t" for g :: "ChatTab \<Rightarrow> jsval" and x
    by (rule run_steps_keeps [of _ "\<lambda>x. map g (tabs x)"])
       (auto simp: state_of_draw tabs_saveTabs map_tabs_renderActiveTab [of g, OF that])
  show "map tab_id (tabs (state_of (createTab uuid account nameOpt ty s)))
          = map tab_id (tabs s) @ [JStr uuid]"
    by (simp add: createTab_def Let_def k initializeTerminal_def update_tab_def map_update_same
          del: run_steps.simps)
  show "map accountId (tabs (state_of (createTab uuid account nameOpt ty s)))
          = map accountId (tabs s) @ [JStr account]"
    by (simp add: createTab_def Let_def k initializeTerminal_def update_tab_def map_update_same
          del: run_steps.simps)
  show "map name (tabs (state_of (createTab uuid account (Some n) ty s)))
          = map name (tabs s) @ [JStr n]" if "n \<noteq> []"
    using that
    by (simp add: createTab_def Let_def k initializeTerminal_def update_tab_def map_update_same
          del: run_steps.simps)
qed

lemma tab_of_entry_readable:
  "entry_readable e \<Longrightarrow> \<exists>t. tab_of_entry e = Inr t \<and> restored_from e t"
  by (simp add: tab_of_entry_def entry_readable_def entry_type_def restored_from_def Let_def
        get_prop_ok)

lemma tab_of_entry_unreadable:
  "\<not> entry_readable e \<Longrightarrow> tab_of_entry e = Inl TypeError"
  by (auto simp: tab_of_entry_def entry_readable_def entry_type_def Let_def get_prop_ok)

lemma restore_entries_prefix:
  "\<exists>ts. fst (restore_entries es acc) = acc @ ts \<and>
        list_all2 restored_from (takeWhile entry_readable es) ts"
proof (induction es arbitrary: acc)
  case Nil
  then show ?case by simp
next
  case (Cons e es)
  show ?case
  proof (cases "entry_readable e")
    case True
    then obtain t where t: "tab_of_entry e = Inr t" "restored_from e t"
      using tab_of_entry_readable by blast
    from Cons.IH [of "acc @ [t]"] obtain ts where
      ts: "fst (restore_entries es (acc @ [t])) = (acc @ [t]) @ ts"
      "list_all2 restored_from (takeWhile entry_readable es) ts" by blast
    have "fst (restore_entries (e # es) acc) = acc @ (t # ts)"
      using t(1) ts(1) by simp
    moreover have "list_all2 restored_from (takeWhile entry_readable (e # es)) (t # ts)"
      using True t(2) ts(2) by simp
    ultimately show ?thesis by blast
  next
    case False
    then show ?thesis by (simp add: tab_of_entry_unreadable)
  qed
qed

lemma tabs_restore_snapshot:
  "storage_tabs s = Some stored \<Longrightarrow> JSON_parse stored = Inr (JArr a entries) \<Longrightarrow>
   tabs (restore_snapshot s) = fst (restore_entries entries (tabs s))"
  by (cases stored)
     (auto simp: restore_snapshot_def Let_def split: prod.splits bool.splits option.splits)

text \<open>
  The stored snapshot is \<open>[null, a]\<close> with \<open>a\<close> a well-formed entry: the \<open>null\<close> ends the
  loop, \<open>a\<close> is not restored, and the registry gets the default tab only. And the stored
  snapshot has one entry, with an \<open>id\<close> and a \<open>name\<close> but no \<open>accountId\<close>: the entry is
  restored, the tab strip cannot be drawn, and \<open>restoreTabs\<close> ends with the \<open>TypeError\<close>.
\<close>

theorem restore_null_entry_counterexample:
  "storage_tabs broken_storage = Some (Json (JArr [] [JNull, tab_snapshot (example_tab ''a'')])) \<and>
   entry_readable (tab_snapshot (example_tab ''a'')) \<and>
   tabs (restore_snapshot broken_storage) = [] \<and>
   map_sum (\<lambda>e. e) (\<lambda>r. map tab_id (tabs r))
     (restoreTabs (\<lambda>t. t) (\<lambda>t. None) (\<lambda>c. LoadRejected) (AccountResolved True (Some ''acc''))
        ''u'' broken_storage) = Inr [JStr ''u''] \<and>
   storage_tabs no_account_storage
     = Some (Json (JArr [] [JObj [] [(''id'', JStr ''a''), (''name'', JStr ''A'')]])) \<and>
   map tab_id (tabs (restore_snapshot no_account_storage)) = [JStr ''a''] \<and>
   restoreTabs (\<lambda>t. t) (\<lambda>t. None) (\<lambda>c. LoadRejected) AccountRejected ''u'' no_account_storage
     = Inl TypeError"
proof -
  have b: "tabs (restore_snapshot broken_storage) = []"
    by (simp add: broken_storage_def example_state_def restore_snapshot_def tab_of_entry_def)
  have "list_all tab_presentable (tabs (restore_snapshot broken_storage))" using b by simp
  from createTab_returns [OF this, of "''u''" "''acc''" "Some ''Chat 1''" None]
  obtain r where r: "createTab ''u'' ''acc'' (Some ''Chat 1'') None (restore_snapshot broken_storage)
                       = Returned r"
    by blast
  have "map tab_id (tabs r) = [JStr ''u'']"
    using createTab_fields(1) [of "''u''" "''acc''" "Some ''Chat 1''" None
        "restore_snapshot broken_storage"] r b by simp
  with r b have 1: "map_sum (\<lambda>e. e) (\<lambda>r. map tab_id (tabs r))
     (restoreTabs (\<lambda>t. t) (\<lambda>t. None) (\<lambda>c. LoadRejected) (AccountResolved True (Some ''acc''))
        ''u'' broken_storage) = Inr [JStr ''u'']"
    by (simp add: restoreTabs_def Let_def)
  have n: "tabs (restore_snapshot no_account_storage)
             = [\<lparr>tab_id = JStr ''a'', name = JStr ''A'', accountId = JUndefined,
                 conversationId = JUndefined, parentMessageUuid = JUndefined, model = JUndefined,
                 messages = [], isLoading = False, streamingElement = None,
                 pendingAttachments = [], tabType = JStr ''gui'', terminal = None\<rparr>]"
    by (simp add: no_account_storage_def example_state_def restore_snapshot_def tab_of_entry_def
          printable_def Let_def)
  have 2: "restoreTabs (\<lambda>t. t) (\<lambda>t. None) (\<lambda>c. LoadRejected) AccountRejected ''u'' no_account_storage
     = Inl TypeError"
    by (simp add: restoreTabs_def Let_def n renderTabs_def tab_renders_def)
  have 3: "entry_readable (tab_snapshot (example_tab ''a''))"
    by (simp add: entry_readable_def entry_type_def tab_snapshot_def example_tab_def printable_def)
  have 4: "storage_tabs broken_storage = Some (Json (JArr [] [JNull, tab_snapshot (example_tab ''a'')]))"
    "storage_tabs no_account_storage
     = Some (Json (JArr [] [JObj [] [(''id'', JStr ''a''), (''name'', JStr ''A'')]]))"
    by (simp_all add: broken_storage_def no_account_storage_def example_state_def)
  from b 1 2 3 4 n show ?thesis by simp
qed

text \<open>
  Claim C3, amended. \<open>restoreTabs\<close> does not drop malformed entries one by one. A text that
  does not parse restores nothing. Of a stored array, the entries before the first one that
  cannot be read (a \<open>null\<close>, or an entry whose name or tab type cannot be printed) are
  restored, each field by field, a missing field being \<open>undefined\<close> in the tab (the entry is
  not dropped) and the tab type defaulting to \<open>gui\<close>; the entries from that one on are not
  restored. If tabs result and all of them can be presented, the restore returns with
  exactly these tabs (same ids, same order); if one of them cannot be drawn in the tab
  strip (it has no string \<open>accountId\<close>, say), the whole restore fails with a \<open>TypeError\<close>.
  If no tab results, the restore fails when the bridge rejects the request for the active
  account, and when the bridge reports an active account the registry gets one tab,
  \<open>Chat 1\<close>, of that account, as the active one.
\<close>

theorem restore_tolerance:
  "(storage_tabs s = Some Unparseable \<longrightarrow> restore_snapshot s = s) \<and>
   (storage_tabs s = Some stored \<and> JSON_parse stored = Inr (JArr a entries) \<longrightarrow>
      take (length (tabs s)) (tabs (restore_snapshot s)) = tabs s \<and>
      list_all2 restored_from (takeWhile entry_readable entries)
        (drop (length (tabs s)) (tabs (restore_snapshot s)))) \<and>
   (tabs (restore_snapshot s) \<noteq> [] \<and> list_all tab_presentable (tabs (restore_snapshot s)) \<longrightarrow>
      (\<exists>r. restoreTabs marked parseDate load activeAccount uuid s = Inr r \<and>
           map tab_id (tabs r) = map tab_id (tabs (restore_snapshot s)))) \<and>
   (tabs (restore_snapshot s) \<noteq> [] \<and> \<not> list_all tab_renders (tabs (restore_snapshot s)) \<longrightarrow>
      restoreTabs marked parseDate load activeAccount uuid s = Inl TypeError) \<and>
   (tabs (restore_snapshot s) = [] \<longrightarrow>
      restoreTabs marked parseDate load AccountRejected uuid s = Inl BridgeRejected \<and>
      (\<exists>r. restoreTabs marked parseDate load (AccountResolved True (Some account)) uuid s = Inr r \<and>
           map tab_id (tabs r) = [JStr uuid] \<and> map accountId (tabs r) = [JStr account] \<and>
           map name (tabs r) = [JStr ''Chat 1''] \<and> activeTabId r = JStr uuid))"
proof (intro conjI impI)
  show "restore_snapshot s = s" if "storage_tabs s = Some Unparseable"
    using that by (simp add: restore_snapshot_def)
next
  assume h: "storage_tabs s = Some stored \<and> JSON_parse stored = Inr (JArr a entries)"
  then have t: "tabs (restore_snapshot s) = fst (restore_entries entries (tabs s))"
    using tabs_restore_snapshot by blast
  from restore_entries_prefix [of entries "tabs s"] obtain ts where
    ts: "fst (restore_entries entries (tabs s)) = tabs s @ ts"
    "list_all2 restored_from (takeWhile entry_readable entries) ts" by blast
  show "take (length (tabs s)) (tabs (restore_snapshot s)) = tabs s"
    by (simp add: t ts(1))
  show "list_all2 restored_from (takeWhile entry_readable entries)
          (drop (length (tabs s)) (tabs (restore_snapshot s)))"
    by (simp add: t ts)
next
  assume h: "tabs (restore_snapshot s) \<noteq> [] \<and> list_all tab_presentable (tabs (restore_snapshot s))"
  let ?s1 = "restore_snapshot s"
  let ?r = "renderActiveTab (state_of (load_histories marked parseDate load [0..<length (tabs ?s1)]
                                         (renderActiveTab ?s1)))"
  from h restore_steps_return [of ?s1 marked parseDate load]
  have "restoreTabs marked parseDate load activeAccount uuid s = Inr ?r"
    by (auto simp: restoreTabs_def Let_def simp del: run_steps.simps)
  moreover have "map tab_id (tabs ?r) = map tab_id (tabs ?s1)"
    by (simp add: map_tabs_renderActiveTab load_histories_keeps)
  ultimately show "\<exists>r. restoreTabs marked parseDate load activeAccount uuid s = Inr r \<and>
           map tab_id (tabs r) = map tab_id (tabs (restore_snapshot s))"
    by blast
next
  assume "tabs (restore_snapshot s) \<noteq> [] \<and> \<not> list_all tab_renders (tabs (restore_snapshot s))"
  then show "restoreTabs marked parseDate load activeAccount uuid s = Inl TypeError"
    by (simp add: restoreTabs_def Let_def renderTabs_def)
next
  assume e: "tabs (restore_snapshot s) = []"
  show "restoreTabs marked parseDate load AccountRejected uuid s = Inl BridgeRejected"
    using e by (simp add: restoreTabs_def Let_def)
  have "list_all tab_presentable (tabs (restore_snapshot s))" using e by simp
  from createTab_returns [OF this, of uuid account "Some ''Chat 1''" None]
  obtain r where r: "createTab uuid account (Some ''Chat 1'') None (restore_snapshot s) = Returned r"
    by blast
  have "map tab_id (tabs r) = [JStr uuid]" "map accountId (tabs r) = [JStr account]"
    "map name (tabs r) = [JStr ''Chat 1'']" "activeTabId r = JStr uuid"
    using createTab_fields(1,2) [of uuid account "Some ''Chat 1''" None "restore_snapshot s"]
      createTab_fields(3) [of "''Chat 1''" uuid account None "restore_snapshot s"]
      createTab_adds(2) [of uuid account "Some ''Chat 1''" None "restore_snapshot s"] r e
    by simp_all
  with r e
  show "\<exists>r. restoreTabs marked parseDate load (AccountResolved True (Some account)) uuid s = Inr r \<and>
           map tab_id (tabs r) = [JStr uuid] \<and> map accountId (tabs r) = [JStr account] \<and>
           map name (tabs r) = [JStr ''Chat 1''] \<and> activeTabId r = JStr uuid"
    by (simp add: restoreTabs_def Let_def)
qed

theorem restore_tolerance_witness:
  "storage_tabs ((example_state [] JNull)\<lparr>storage_tabs := Some Unparseable\<rparr>) = Some Unparseable \<and>
   restore_snapshot ((example_state [] JNull)\<lparr>storage_tabs := Some Unparseable\<rparr>)
     = (example_state [] JNull)\<lparr>storage_tabs := Some Unparseable\<rparr> \<and>
   storage_tabs mixed_storage
     = Some (Json (JArr [] [tab_snapshot (example_tab ''a''), nameless_entry, JNull,
                            tab_snapshot (example_tab ''b'')])) \<and>
   JSON_parse (Json (JArr [] [tab_snapshot (example_tab ''a''), nameless_entry, JNull,
                              tab_snapshot (example_tab ''b'')]))
     = Inr (JArr [] [fresh [0] (tab_snapshot (example_tab ''a'')), fresh [1] nameless_entry, JNull,
                     fresh [3] (tab_snapshot (example_tab ''b''))]) \<and>
   takeWhile entry_readable
     [fresh [0] (tab_snapshot (example_tab ''a'')), fresh [1] nameless_entry, JNull,
      fresh [3] (tab_snapshot (example_tab ''b''))]
     = [fresh [0] (tab_snapshot (example_tab ''a'')), fresh [1] nameless_entry] \<and>
   list_all2 restored_from [fresh [0] (tab_snapshot (example_tab ''a'')), fresh [1] nameless_entry]
     (tabs (restore_snapshot mixed_storage)) \<and>
   map name (tabs (restore_snapshot mixed_storage)) = [JStr ''Chat'', JUndefined] \<and>
   list_all tab_presentable (tabs (restore_snapshot mixed_storage)) \<and>
   map_sum (\<lambda>e. e) (\<lambda>r. map tab_id (tabs r))
     (restoreTabs (\<lambda>t. t) (\<lambda>t. None) (\<lambda>c. LoadRejected) AccountRejected ''u'' mixed_storage)
     = Inr [JStr ''a'', JStr ''n''] \<and>
   tabs (restore_snapshot no_account_storage) \<noteq> [] \<and>
   \<not> list_all tab_renders (tabs (restore_snapshot no_account_storage)) \<and>
   restoreTabs (\<lambda>t. t) (\<lambda>t. None) (\<lambda>c. LoadRejected) AccountRejected ''u'' no_account_storage
     = Inl TypeError \<and>
   tabs (restore_snapshot broken_storage) = [] \<and>
   restoreTabs (\<lambda>t. t) (\<lambda>t. None) (\<lambda>c. LoadRejected) AccountRejected ''u'' broken_storage
     = Inl BridgeRejected \<and>
   map_sum (\<lambda>e. e) (\<lambda>r. map accountId (tabs r))
     (restoreTabs (\<lambda>t. t) (\<lambda>t. None) (\<lambda>c. LoadRejected) (AccountResolved True (Some ''acc''))
        ''u'' broken_storage) = Inr [JStr ''acc'']"
proof -
  let ?u = "(example_state [] JNull)\<lparr>storage_tabs := Some Unparseable\<rparr>"
  let ?stored = "Json (JArr [] [tab_snapshot (example_tab ''a''), nameless_entry, JNull,
                               tab_snapshot (example_tab ''b'')])"
  let ?e0 = "fresh [0] (tab_snapshot (example_tab ''a''))"
  let ?e1 = "fresh [1] nameless_entry"
  let ?e3 = "fresh [3] (tab_snapshot (example_tab ''b''))"
  have u: "storage_tabs ?u = Some Unparseable" by simp
  have m: "storage_tabs mixed_storage = Some ?stored" "tabs mixed_storage = []"
    by (simp_all add: mixed_storage_def example_state_def)
  have p: "JSON_parse ?stored = Inr (JArr [] [?e0, ?e1, JNull, ?e3])"
    by (simp add: eval_nat_numeral)
  have rd: "entry_readable ?e0" "entry_readable ?e1" "\<not> entry_readable JNull"
    by (simp_all add: entry_readable_def entry_type_def tab_snapshot_def example_tab_def
          nameless_entry_def printable_def)
  then have tw: "takeWhile entry_readable [?e0, ?e1, JNull, ?e3] = [?e0, ?e1]"
    by simp
  note w1 = restore_tolerance [of ?u ?stored "[]" "[]" "\<lambda>t. t" "\<lambda>t. None" "\<lambda>c. LoadRejected"
        AccountRejected "''u''" "''acc''"]
  note w2 = restore_tolerance [of mixed_storage ?stored "[]" "[?e0, ?e1, JNull, ?e3]" "\<lambda>t. t"
        "\<lambda>t. None" "\<lambda>c. LoadRejected" AccountRejected "''u''" "''acc''"]
  note w3 = restore_tolerance [of no_account_storage ?stored "[]" "[]" "\<lambda>t. t" "\<lambda>t. None"
        "\<lambda>c. LoadRejected" AccountRejected "''u''" "''acc''"]
  note w4 = restore_tolerance [of broken_storage ?stored "[]" "[]" "\<lambda>t. t" "\<lambda>t. None"
        "\<lambda>c. LoadRejected" AccountRejected "''u''" "''acc''"]
  have c1: "restore_snapshot ?u = ?u" using w1 u by blast
  have c2: "list_all2 restored_from [?e0, ?e1] (tabs (restore_snapshot mixed_storage))"
    using w2 m p tw by simp
  then obtain t0 t1 where t: "tabs (restore_snapshot mixed_storage) = [t0, t1]"
    "restored_from ?e0 t0" "restored_from ?e1 t1"
    by (auto simp: list_all2_Cons1)
  have f: "tab_id t0 = JStr ''a''" "name t0 = JStr ''Chat''" "accountId t0 = JStr ''acc''"
    "model t0 = JStr ''claude-opus-4-5-20251101''" "tabType t0 = JStr ''gui''"
    "conversationId t0 = JNull"
    "tab_id t1 = JStr ''n''" "name t1 = JUndefined" "accountId t1 = JStr ''acc''"
    "model t1 = JUndefined" "tabType t1 = JStr ''gui''" "conversationId t1 = JUndefined"
    using t(2,3)
    by (simp_all add: restored_from_def entry_type_def tab_snapshot_def example_tab_def
          nameless_entry_def)
  have c3: "map name (tabs (restore_snapshot mixed_storage)) = [JStr ''Chat'', JUndefined]"
    by (simp add: t(1) f)
  have c4: "list_all tab_presentable (tabs (restore_snapshot mixed_storage))"
    by (simp add: t(1) f tab_presentable_def tab_renders_def printable_def)
  have c5: "map_sum (\<lambda>e. e) (\<lambda>r. map tab_id (tabs r))
     (restoreTabs (\<lambda>t. t) (\<lambda>t. None) (\<lambda>c. LoadRejected) AccountRejected ''u'' mixed_storage)
     = Inr [JStr ''a'', JStr ''n'']"
    using w2 c4 t(1) f by auto
  have n: "tabs (restore_snapshot no_account_storage)
             = [\<lparr>tab_id = JStr ''a'', name = JStr ''A'', accountId = JUndefined,
                 conversationId = JUndefined, parentMessageUuid = JUndefined, model = JUndefined,
                 messages = [], isLoading = False, streamingElement = None,
                 pendingAttachments = [], tabType = JStr ''gui'', terminal = None\<rparr>]"
    by (simp add: no_account_storage_def example_state_def restore_snapshot_def tab_of_entry_def
          printable_def Let_def)
  have c6: "tabs (restore_snapshot no_account_storage) \<noteq> []"
    "\<not> list_all tab_renders (tabs (restore_snapshot no_account_storage))"
    by (simp_all add: n tab_renders_def)
  have c7: "restoreTabs (\<lambda>t. t) (\<lambda>t. None) (\<lambda>c. LoadRejected) AccountRejected ''u''
              no_account_storage = Inl TypeError"
    using w3 c6 by blast
  have c8: "tabs (restore_snapshot broken_storage) = []"
    by (simp add: broken_storage_def example_state_def restore_snapshot_def tab_of_entry_def)
  have c9: "restoreTabs (\<lambda>t. t) (\<lambda>t. None) (\<lambda>c. LoadRejected) AccountRejected ''u'' broken_storage
     = Inl BridgeRejected"
    using w4 c8 by blast
  have c10: "map_sum (\<lambda>e. e) (\<lambda>r. map accountId (tabs r))
     (restoreTabs (\<lambda>t. t) (\<lambda>t. None) (\<lambda>c. LoadRejected) (AccountResolved True (Some ''acc''))
        ''u'' broken_storage) = Inr [JStr ''acc'']"
    using w4 c8 by auto
  from u m(1) p tw c1 c2 c3 c4 c5 c6 c7 c8 c9 c10 show ?thesis by blast
qed

subsection \<open>Saving and restoring\<close>

lemma is_string_norm: "is_string v \<Longrightarrow> v \<noteq> JUndefined \<and> json_norm v = v \<and> fresh p v = v"
  by (cases v) auto

lemma is_string_or_null_norm:
  "is_string_or_null v \<Longrightarrow> v \<noteq> JUndefined \<and> json_norm v = v \<and> fresh p v = v"
  by (cases v) auto

lemma printable_string_or_null: "is_string_or_null v \<Longrightarrow> printable v"
  by (cases v) (simp_all add: printable_def)

lemma stored_snapshot:
  assumes "well_typed_tab t"
  shows "fresh p (json_norm (tab_snapshot t))
           = JObj p [(''id'', tab_id t), (''name'', name t), (''accountId'', accountId t),
                     (''conversationId'', conversationId t),
                     (''parentMessageUuid'', parentMessageUuid t), (''model'', model t),
                     (''tabType'', tabType t)]"
proof -
  from assms have s: "is_string (tab_id t)" "is_string (name t)" "is_string (accountId t)"
    "is_string_or_null (conversationId t)" "is_string_or_null (parentMessageUuid t)"
    "is_string (model t)" "is_string (tabType t)"
    by (auto simp: well_typed_tab_def)
  note n = is_string_norm [OF s(1)] is_string_norm [OF s(2)] is_string_norm [OF s(3)]
    is_string_or_null_norm [OF s(4)] is_string_or_null_norm [OF s(5)] is_string_norm [OF s(6)]
    is_string_norm [OF s(7)]
  show ?thesis
    by (simp add: tab_snapshot_def n)
qed

lemma tab_of_entry_snapshot:
  assumes "well_typed_tab t"
  shows "tab_of_entry (fresh p (json_norm (tab_snapshot t))) = Inr (reset_transient t)"
proof -
  from assms have "printable (name t)" "truthy (tabType t)" "printable (tabType t)"
    by (auto simp: well_typed_tab_def printable_string printable_simps)
  then show ?thesis
    unfolding stored_snapshot [OF assms]
    by (simp add: tab_of_entry_def reset_transient_def)
qed

lemma restore_entries_snapshots:
  "list_all well_typed_tab ts \<Longrightarrow>
   restore_entries
     (fresh_list p i (map (\<lambda>x. if x = JUndefined then JNull else json_norm x) (map tab_snapshot ts)))
     acc = (acc @ map reset_transient ts, True)"
proof (induction ts arbitrary: i acc)
  case Nil
  then show ?case by simp
next
  case (Cons t ts)
  have ne: "tab_snapshot t \<noteq> JUndefined" by (simp add: tab_snapshot_def)
  from Cons.prems have t: "well_typed_tab t" and ts: "list_all well_typed_tab ts" by simp_all
  show ?case
    using Cons.IH [OF ts, of "Suc i" "acc @ [reset_transient t]"]
    by (simp add: ne tab_of_entry_snapshot [OF t] del: json_norm.simps fresh.simps)
qed

lemma snapshot_round_trip:
  assumes "tabs s \<noteq> []" and "list_all well_typed_tab (tabs s)" and "activeTabId s = JStr a"
    and "a \<noteq> []" and "\<exists>t \<in> set (tabs s). tab_id t = JStr a"
  shows "tabs (restore_snapshot (location_reload (saveTabs s))) = map reset_transient (tabs s)"
    and "activeTabId (restore_snapshot (location_reload (saveTabs s))) = activeTabId s"
proof -
  from assms(5) obtain t where t: "t \<in> set (tabs s)" "tab_id t = JStr a" by blast
  then have "reset_transient t \<in> set (map reset_transient (tabs s))"
    "strict_eq (tab_id (reset_transient t)) (JStr a)"
    by (auto simp: reset_transient_def)
  then have f: "find_index (\<lambda>t. strict_eq (tab_id t) (JStr a)) (map reset_transient (tabs s)) \<noteq> None"
    by (rule find_index_not_None)
  define entries where "entries = fresh_list [] 0
     (map (\<lambda>x. if x = JUndefined then JNull else json_norm x) (map tab_snapshot (tabs s)))"
  have st: "storage_tabs (location_reload (saveTabs s))
              = Some (Json (json_norm (JArr [] (map tab_snapshot (tabs s)))))"
    "storage_active (location_reload (saveTabs s)) = Some a"
    "tabs (location_reload (saveTabs s)) = []"
    using assms(3,4)
    by (simp_all add: location_reload_def saveTabs_def JSON_stringify_def Let_def
          del: json_norm.simps)
  have pa: "JSON_parse (Json (json_norm (JArr [] (map tab_snapshot (tabs s)))))
              = Inr (JArr [] entries)"
    by (simp add: entries_def)
  have re: "restore_entries entries [] = (map reset_transient (tabs s), True)"
    unfolding entries_def using restore_entries_snapshots [OF assms(2), of "[]" 0 "[]"] by simp
  show "tabs (restore_snapshot (location_reload (saveTabs s))) = map reset_transient (tabs s)"
    using assms(1) f
    by (simp add: restore_snapshot_def st pa re Let_def del: json_norm.simps JSON_parse.simps)
  show "activeTabId (restore_snapshot (location_reload (saveTabs s))) = activeTabId s"
    using assms(1,3,4) f
    by (simp add: restore_snapshot_def st pa re Let_def del: json_norm.simps JSON_parse.simps)
qed

lemma well_typed_presentable: "well_typed_tab t \<Longrightarrow> tab_presentable (reset_transient t)"
  by (auto simp: well_typed_tab_def tab_presentable_def tab_renders_def reset_transient_def
        printable_string printable_string_or_null printable_simps)

text \<open>
  Claim C5, amended. For a registry that is not empty, whose tabs have the types of the
  \<open>ChatTab\<close> interface and whose active id is the non-empty id of one of its tabs:
  \<open>saveTabs\<close>, a reload, and the reading of the snapshot by \<open>restoreTabs\<close> give back every
  tab with its durable fields as saved and its other fields reset (\<open>messages\<close> empty,
  \<open>streamingElement\<close> null, \<open>isLoading\<close> false, no pending attachment, no terminal), and
  the active id. The whole \<open>restoreTabs\<close>, which then loads the histories, keeps the active
  id and every field but \<open>messages\<close>, \<open>parentMessageUuid\<close>, \<open>name\<close> and the terminal,
  whatever the bridge answers; when the bridge rejects every request for a history, all
  fields but the terminal are as after the reading of the snapshot.
\<close>

theorem save_restore_round_trip:
  "tabs s \<noteq> [] \<and> list_all well_typed_tab (tabs s) \<and> activeTabId s = JStr a \<and> a \<noteq> [] \<and>
   (\<exists>t \<in> set (tabs s). tab_id t = JStr a) \<longrightarrow>
     tabs (restore_snapshot (location_reload (saveTabs s))) = map reset_transient (tabs s) \<and>
     activeTabId (restore_snapshot (location_reload (saveTabs s))) = activeTabId s \<and>
     (\<exists>r. restoreTabs marked parseDate load activeAccount uuid (location_reload (saveTabs s)) = Inr r \<and>
          map history_free (tabs r) = map (\<lambda>t. history_free (reset_transient t)) (tabs s) \<and>
          activeTabId r = activeTabId s \<and>
          ((\<forall>c. load c = LoadRejected) \<longrightarrow>
             map erase_terminal (tabs r) = map reset_transient (tabs s)))"
proof (intro impI)
  assume h: "tabs s \<noteq> [] \<and> list_all well_typed_tab (tabs s) \<and> activeTabId s = JStr a \<and> a \<noteq> [] \<and>
   (\<exists>t \<in> set (tabs s). tab_id t = JStr a)"
  let ?s1 = "restore_snapshot (location_reload (saveTabs s))"
  from h have t: "tabs ?s1 = map reset_transient (tabs s)" and a: "activeTabId ?s1 = activeTabId s"
    using snapshot_round_trip [of s a] by blast+
  from h t have ne: "tabs ?s1 \<noteq> []" by simp
  from h have pr: "list_all tab_presentable (tabs ?s1)"
    by (simp add: t list_all_iff well_typed_presentable)
  let ?l = "state_of (load_histories marked parseDate load [0..<length (tabs ?s1)]
                        (renderActiveTab ?s1))"
  let ?r = "renderActiveTab ?l"
  have r: "restoreTabs marked parseDate load activeAccount uuid (location_reload (saveTabs s)) = Inr ?r"
    using ne restore_steps_return [OF pr, of marked parseDate load]
    by (auto simp: restoreTabs_def Let_def simp del: run_steps.simps)
  have "map history_free (tabs ?r) = map history_free (tabs ?s1)"
    by (simp add: map_tabs_renderActiveTab load_histories_keeps history_free_def)
  then have hf: "map history_free (tabs ?r) = map (\<lambda>t. history_free (reset_transient t)) (tabs s)"
    by (simp add: t comp_def)
  have ar: "activeTabId ?r = activeTabId s"
    by (simp add: activeTabId_renderActiveTab activeTabId_load_histories a)
  have rej: "map erase_terminal (tabs ?r) = map reset_transient (tabs s)"
    if "\<forall>c. load c = LoadRejected"
  proof -
    let ?x = "renderActiveTab ?s1"
    have e: "map erase_terminal (tabs ?x) = map erase_terminal (tabs ?s1)"
      by (rule erase_terminal_renderActiveTab)
    then have len: "length (tabs ?x) = length (tabs ?s1)" by (rule map_eq_imp_length_eq)
    have "list_all tab_presentable (tabs ?x)" using presentable_cong [OF e] pr by simp
    then have "list_all printable (map conversationId (tabs ?x))"
      by (simp add: list_all_iff tab_presentable_def)
    moreover have "list_all (\<lambda>i. i < length (tabs ?x)) [0..<length (tabs ?s1)]"
      by (simp add: len list_all_iff)
    ultimately have "load_histories marked parseDate load [0..<length (tabs ?s1)] ?x = Returned ?x"
      using that by (intro load_histories_rejected)
    then have "map erase_terminal (tabs ?r) = map erase_terminal (tabs ?s1)"
      by (simp add: erase_terminal_renderActiveTab)
    also have "\<dots> = map reset_transient (tabs s)"
      by (simp add: t erase_terminal_def reset_transient_def)
    finally show ?thesis .
  qed
  from t a r hf ar rej
  show "tabs ?s1 = map reset_transient (tabs s) \<and> activeTabId ?s1 = activeTabId s \<and>
     (\<exists>r. restoreTabs marked parseDate load activeAccount uuid (location_reload (saveTabs s)) = Inr r \<and>
          map history_free (tabs r) = map (\<lambda>t. history_free (reset_transient t)) (tabs s) \<and>
          activeTabId r = activeTabId s \<and>
          ((\<forall>c. load c = LoadRejected) \<longrightarrow>
             map erase_terminal (tabs r) = map reset_transient (tabs s)))"
    by blast
qed

text \<open>
  A tab with a conversation is saved and restored, and the bridge returns a history of one
  message for the conversation: the restored tab has a message, and its
  \<open>parentMessageUuid\<close> is the id of that message, not the saved one. And a registry of
  one tab with no active tab (\<open>null\<close>) is saved and its snapshot read back: the tab is the
  active one.
\<close>

theorem save_restore_history_counterexample:
  "list_all well_typed_tab (tabs chat_state) \<and>
   map messages (tabs chat_state) = [[]] \<and>
   map parentMessageUuid (tabs chat_state) = [JStr ''p0''] \<and>
   map_sum (\<lambda>e. e) (\<lambda>r. (map messages (tabs r), map parentMessageUuid (tabs r)))
     (restoreTabs (\<lambda>t. t) (\<lambda>t. Some 0) (\<lambda>c. Loaded one_message_history) AccountRejected ''u''
        (location_reload (saveTabs chat_state)))
     = Inr ([[0]], [JStr ''m1'']) \<and>
   activeTabId (example_state [example_tab ''a''] JNull) = JNull \<and>
   activeTabId
     (restore_snapshot (location_reload (saveTabs (example_state [example_tab ''a''] JNull))))
     = JStr ''a''"
proof -
  have fb: "activeTabId
     (restore_snapshot (location_reload (saveTabs (example_state [example_tab ''a''] JNull))))
     = JStr ''a''"
    by (simp add: restore_snapshot_def location_reload_def saveTabs_def JSON_stringify_def
          example_state_def example_tab_def tab_snapshot_def tab_of_entry_def Let_def printable_def)
  have fb0: "activeTabId (example_state [example_tab ''a''] JNull) = JNull"
    by (simp add: example_state_def)
  have wt: "list_all well_typed_tab (tabs chat_state)"
    by (simp add: chat_state_def example_state_def example_tab_def well_typed_tab_def)
  have s1: "tabs (restore_snapshot (location_reload (saveTabs chat_state)))
              = map reset_transient (tabs chat_state)"
    "activeTabId (restore_snapshot (location_reload (saveTabs chat_state))) = JStr ''a''"
    using snapshot_round_trip [of chat_state "''a''"] wt
    by (simp_all add: chat_state_def example_state_def example_tab_def)
  define s1 where "s1 = restore_snapshot (location_reload (saveTabs chat_state))"
  have t1: "tabs s1 = [(example_tab ''a'')\<lparr>conversationId := JStr ''c1'',
                         parentMessageUuid := JStr ''p0''\<rparr>]"
    "activeTabId s1 = JStr ''a''"
    using s1 by (simp_all add: s1_def chat_state_def example_state_def reset_transient_def
          example_tab_def)
  have g: "getActiveTab s1 = Some 0" "getActiveTab (s1\<lparr>elements := d, next_el := n\<rparr>) = Some 0" for d n
    by (simp_all add: getActiveTab_def t1 example_tab_def)
  have r1: "renderActiveTab s1 = s1"
    by (simp add: renderActiveTab_def g t1 example_tab_def)
  have m: "message_text (JObj [0, 0] [(''uuid'', JStr ''m1''), (''text'', JStr ''hello''),
                        (''sender'', JStr ''human''), (''created_at'', JStr ''2024-01-01'')])
             = Inr ''hello''"
    by (simp add: message_text_def)
  have l: "\<exists>x. loadConversationHistory (\<lambda>t. t) (\<lambda>t. Some 0) (\<lambda>c. Loaded one_message_history) 0 s1
                  = Returned x \<and>
               tabs x = [(example_tab ''a'')\<lparr>conversationId := JStr ''c1'',
                           parentMessageUuid := JStr ''m1'', messages := [next_el s1]\<rparr>]"
    by (simp add: loadConversationHistory_def t1 example_tab_def one_message_history_def
          messages_field_def sort_messages_def m addMessage_def Let_def g update_tab_def
          finish_history_def printable_def)
  then obtain x where x: "loadConversationHistory (\<lambda>t. t) (\<lambda>t. Some 0)
      (\<lambda>c. Loaded one_message_history) 0 s1 = Returned x"
    "tabs x = [(example_tab ''a'')\<lparr>conversationId := JStr ''c1'',
                parentMessageUuid := JStr ''m1'', messages := [next_el s1]\<rparr>]"
    by blast
  have n: "next_el s1 = 0"
    by (simp add: s1_def restore_snapshot_def location_reload_def Let_def
          split: option.splits sum.splits prod.splits bool.splits)
  have pr: "list_all tab_presentable (tabs s1)"
    by (simp add: t1 example_tab_def tab_presentable_def tab_renders_def printable_def)
  have lh: "load_histories (\<lambda>t. t) (\<lambda>t. Some 0) (\<lambda>c. Loaded one_message_history)
              [0..<length (tabs s1)] s1 = Returned x"
    using x(1) by (simp add: t1 example_tab_def)
  have "restoreTabs (\<lambda>t. t) (\<lambda>t. Some 0) (\<lambda>c. Loaded one_message_history) AccountRejected ''u''
        (location_reload (saveTabs chat_state)) = Inr (renderActiveTab x)"
    using restore_steps_return [OF pr, of "\<lambda>t. t" "\<lambda>t. Some 0" "\<lambda>c. Loaded one_message_history"]
      t1(1) r1 lh
    by (auto simp: restoreTabs_def Let_def s1_def [symmetric] simp del: run_steps.simps)
  moreover have "map messages (tabs (renderActiveTab y)) = map messages (tabs y)"
    "map parentMessageUuid (tabs (renderActiveTab y)) = map parentMessageUuid (tabs y)" for y
    by (simp_all add: map_tabs_renderActiveTab)
  ultimately show ?thesis
    using wt x(2) n fb fb0 by (simp add: chat_state_def example_state_def example_tab_def)
qed

theorem save_restore_round_trip_witness:
  "tabs streaming_state \<noteq> [] \<and> list_all well_typed_tab (tabs streaming_state) \<and>
   activeTabId streaming_state = JStr ''a'' \<and>
   list_ex (\<lambda>t. tab_id t = JStr ''a'') (tabs streaming_state) \<and>
   map messages (tabs streaming_state) = [[0, 1]] \<and>
   tabs (restore_snapshot (location_reload (saveTabs streaming_state)))
     = [(example_tab ''a'')\<lparr>conversationId := JStr ''c1''\<rparr>] \<and>
   activeTabId (restore_snapshot (location_reload (saveTabs streaming_state))) = JStr ''a'' \<and>
   map_sum (\<lambda>e. e) (\<lambda>r. (map erase_terminal (tabs r), activeTabId r))
     (restoreTabs (\<lambda>t. t) (\<lambda>t. None) (\<lambda>c. LoadRejected) AccountRejected ''u''
        (location_reload (saveTabs streaming_state)))
     = Inr ([(example_tab ''a'')\<lparr>conversationId := JStr ''c1''\<rparr>], JStr ''a'')"
proof -
  have h: "tabs streaming_state \<noteq> []" "list_all well_typed_tab (tabs streaming_state)"
    "activeTabId streaming_state = JStr ''a''"
    "list_ex (\<lambda>t. tab_id t = JStr ''a'') (tabs streaming_state)"
    "map messages (tabs streaming_state) = [[0, 1]]"
    by (simp_all add: streaming_state_def example_state_def example_tab_def well_typed_tab_def)
  have r: "map reset_transient (tabs streaming_state)
             = [(example_tab ''a'')\<lparr>conversationId := JStr ''c1''\<rparr>]"
    by (simp add: streaming_state_def example_state_def example_tab_def reset_transient_def)
  from h(4) have e: "\<exists>t \<in> set (tabs streaming_state). tab_id t = JStr ''a''"
    by (simp add: list_ex_iff)
  show ?thesis
    using save_restore_round_trip [of streaming_state "''a''" "\<lambda>t. t" "\<lambda>t. None"
        "\<lambda>c. LoadRejected" AccountRejected "''u''"] h e
    by (auto simp: r)
qed

subsection \<open>Loading the history of a conversation\<close>















end
